theory Spec2Isabelle
  imports Complex_Main "HOL-Library.Multiset"
begin

section \<open>Data model\<close>

text \<open>
  The rows of the Prisma tables the dispatch services read and write, restricted to the
  columns those services touch. Fill levels and coordinates are reals; a \<open>Date\<close> is its
  millisecond count; a nullable column is an \<open>option\<close>. User, bin and driver keys are
  the strings the callers pass in; pickup and route keys are generated by the database and
  are modelled by a counter in the store.
\<close>

type_synonym timestamp = int

text \<open>
  A number that JavaScript computes: \<open>NaN\<close> or a finite value. Distances and what is
  derived from them have this type, since the square roots in the distance formula yield
  \<open>NaN\<close> on a negative argument.
\<close>

datatype jsnum = NaN | Finite real

datatype PickupStatus = SCHEDULED | IN_PROGRESS | COMPLETED | CANCELLED

datatype DriverStatus = OFFLINE | ONLINE | BUSY | ON_BREAK

datatype Priority = LOW | MEDIUM | HIGH | URGENT

datatype PickupType = TYPE_SCHEDULED | ON_DEMAND | EMERGENCY

datatype UserRole = USER | DRIVER | ADMIN

datatype BinStatus = EMPTY | BIN_LOW | BIN_MEDIUM | BIN_HIGH | FULL | MAINTENANCE | OUT_OF_SERVICE

datatype RouteStatus = PLANNED | ROUTE_IN_PROGRESS | ROUTE_COMPLETED

text \<open>
  An \<open>AppError\<close> carries the HTTP status code the service sets (404 not found, 403
  forbidden, 400 invalid state). \<open>DbError\<close> is an exception raised by a Prisma call and
  \<open>TypeError\<close> one raised by the JavaScript runtime; neither has a status code.
\<close>

datatype error = AppError nat string | DbError | TypeError

record Bin =
  bin_id :: string
  binCode :: string
  location :: string
  latitude :: real
  longitude :: real
  currentLevel :: real
  bin_status :: BinStatus
  lastEmptied :: "timestamp option"
  isActive :: bool
  bin_userId :: "string option"

text \<open>\<open>userIsActive\<close> is the \<open>isActive\<close> column of the driver's user row (\<open>user.isActive\<close>).\<close>

record Driver =
  drv_id :: string
  drv_userId :: string
  drv_status :: DriverStatus
  isAvailable :: bool
  currentLatitude :: "real option"
  currentLongitude :: "real option"
  userIsActive :: bool

record Pickup =
  pk_id :: nat
  binId :: string
  driverId :: "string option"
  createdById :: string
  scheduledAt :: "timestamp option"
  startedAt :: "timestamp option"
  completedAt :: "timestamp option"
  pk_notes :: "string option"
  pk_status :: PickupStatus
  createdAt :: timestamp

record Route =
  rt_id :: nat
  rt_driverId :: string
  totalDistance :: jsnum
  estimatedDuration :: jsnum
  rt_status :: RouteStatus

record RouteStop =
  stop_routeId :: nat
  stop_binId :: string
  stopOrder :: nat
  estimatedArrival :: "timestamp option"
  stop_status :: PickupStatus

record Store =
  bins :: "Bin list"
  drivers :: "Driver list"
  pickups :: "Pickup list"
  routes :: "Route list"
  routeStops :: "RouteStop list"
  nextId :: nat

text \<open>
  What a run depends on besides the arguments of the operations and the store:
  \<^item> \<open>rounding\<close>: by how much the double-precision value of the haversine term \<open>a\<close> of
    \<open>calculateDistance\<close> differs from its exact value, for the four coordinates given
    (for instance 2 to the power -52 for the antipodal points (-82, -180) and (82, 0),
    where the exact value is 1);
  \<^item> \<open>mapsRounding\<close>: the same for \<open>calculateHaversineDistance\<close> of the mapping service;
  \<^item> \<open>driverQueryFails\<close>: whether the driver query of \<open>findBestAvailableDriver\<close> raises;
  \<^item> \<open>insertTime\<close>: the time the database stamps on a row it inserts (the default of
    \<open>createdAt\<close>, which no service writes). It is one value for the run, and no
    property below compares the stamps of two rows.
\<close>

record Env =
  rounding :: "real \<Rightarrow> real \<Rightarrow> real \<Rightarrow> real \<Rightarrow> real"
  mapsRounding :: "real \<Rightarrow> real \<Rightarrow> real \<Rightarrow> real \<Rightarrow> real"
  driverQueryFails :: bool
  insertTime :: timestamp

section \<open>Geo-distance utility\<close>

text \<open>
  \<open>Math.atan2(y, x)\<close> on finite arguments, and \<open>Math.round\<close>, which rounds half up.
\<close>

definition atan2 :: "real \<Rightarrow> real \<Rightarrow> real" where
  "atan2 y x =
     (if 0 < x then arctan (y / x)
      else if x < 0 then (if 0 \<le> y then arctan (y / x) + pi else arctan (y / x) - pi)
      else if 0 < y then pi / 2
      else if y < 0 then - (pi / 2)
      else 0)"

definition js_round :: "real \<Rightarrow> int" where
  "js_round x = \<lfloor>x + 1 / 2\<rfloor>"

definition deg2rad :: "real \<Rightarrow> real" where
  "deg2rad deg = deg * (pi / 180)"

text \<open>
  The operations on computed numbers that the services use: \<open>Math.sqrt\<close>,
  \<open>Math.atan2\<close>, an operation with finite operands otherwise (\<open>jsMap\<close>), addition, and
  the comparisons \<open><\<close> and \<open><=\<close>, which are false as soon as one side is \<open>NaN\<close>.
\<close>

definition jsSqrt :: "real \<Rightarrow> jsnum" where
  "jsSqrt x = (if x < 0 then NaN else Finite (sqrt x))"

fun jsAtan2 :: "jsnum \<Rightarrow> jsnum \<Rightarrow> jsnum" where
  "jsAtan2 (Finite y) (Finite x) = Finite (atan2 y x)"
| "jsAtan2 y x = NaN"

fun jsMap :: "(real \<Rightarrow> real) \<Rightarrow> jsnum \<Rightarrow> jsnum" where
  "jsMap f (Finite x) = Finite (f x)"
| "jsMap f NaN = NaN"

fun jsPlus :: "jsnum \<Rightarrow> jsnum \<Rightarrow> jsnum" where
  "jsPlus (Finite x) (Finite y) = Finite (x + y)"
| "jsPlus x y = NaN"

fun jsLess :: "jsnum \<Rightarrow> jsnum \<Rightarrow> bool" where
  "jsLess (Finite x) (Finite y) = (x < y)"
| "jsLess x y = False"

fun jsLessEq :: "jsnum \<Rightarrow> jsnum \<Rightarrow> bool" where
  "jsLessEq (Finite x) (Finite y) = (x \<le> y)"
| "jsLessEq x y = False"

text \<open>
  The haversine term \<open>a\<close> as the doubles give it: the exact value of the expression
  plus the rounding of the run.
\<close>

definition haversineTerm :: "Env \<Rightarrow> real \<Rightarrow> real \<Rightarrow> real \<Rightarrow> real \<Rightarrow> real" where
  "haversineTerm env lat1 lng1 lat2 lng2 =
     (let dLat = deg2rad (lat2 - lat1);
          dLng = deg2rad (lng2 - lng1)
      in sin (dLat / 2) * sin (dLat / 2) +
         cos (deg2rad lat1) * cos (deg2rad lat2) * sin (dLng / 2) * sin (dLng / 2) +
         rounding env lat1 lng1 lat2 lng2)"

text \<open>
  \<open>calculateDistance\<close> is defined with the same body in the pickup, driver and route
  optimisation services; the result is in kilometres, or \<open>NaN\<close> when \<open>a\<close> or \<open>1 - a\<close>
  is negative. The operations after \<open>a\<close> are taken without rounding: they change
  neither whether the result is \<open>NaN\<close> nor its sign.
\<close>

definition calculateDistance :: "Env \<Rightarrow> real \<Rightarrow> real \<Rightarrow> real \<Rightarrow> real \<Rightarrow> jsnum" where
  "calculateDistance env lat1 lng1 lat2 lng2 =
     (let R = 6371;
          a = haversineTerm env lat1 lng1 lat2 lng2;
          c = jsMap (\<lambda>v. 2 * v) (jsAtan2 (jsSqrt a) (jsSqrt (1 - a)))
      in jsMap (\<lambda>v. R * v) c)"

text \<open>\<open>Number(v)\<close> on a nullable numeric column: \<open>Number(null)\<close> is 0.\<close>

definition Number :: "real option \<Rightarrow> real" where
  "Number v = (case v of None \<Rightarrow> 0 | Some x \<Rightarrow> x)"

text \<open>Truthiness of an optional string: \<open>undefined\<close>, \<open>null\<close> and \<open>''\<close> are falsy.\<close>

definition truthy :: "string option \<Rightarrow> bool" where
  "truthy v = (case v of None \<Rightarrow> False | Some x \<Rightarrow> x \<noteq> [])"

section \<open>Driver locator\<close>

definition driverDistance :: "Env \<Rightarrow> real \<Rightarrow> real \<Rightarrow> Driver \<Rightarrow> jsnum" where
  "driverDistance env lat lng d =
     calculateDistance env lat lng (Number (currentLatitude d)) (Number (currentLongitude d))"

text \<open>The \<open>where\<close> clause of the query in \<open>findBestAvailableDriver\<close>.\<close>

definition availableDriver :: "Driver \<Rightarrow> bool" where
  "availableDriver d \<longleftrightarrow>
     drv_status d = ONLINE \<and> isAvailable d \<and>
     currentLatitude d \<noteq> None \<and> currentLongitude d \<noteq> None \<and> userIsActive d"

text \<open>
  The \<open>for\<close> loop over \<open>availableDrivers.slice(1)\<close>, with the loop variables
  \<open>closestDriver\<close> and \<open>shortestDistance\<close> as arguments.
\<close>

fun closestLoop :: "Env \<Rightarrow> real \<Rightarrow> real \<Rightarrow> Driver \<Rightarrow> jsnum \<Rightarrow> Driver list \<Rightarrow> Driver" where
  "closestLoop env binLat binLng closestDriver shortestDistance [] = closestDriver"
| "closestLoop env binLat binLng closestDriver shortestDistance (driver # rest) =
     (let distance = driverDistance env binLat binLng driver
      in if jsLess distance shortestDistance
         then closestLoop env binLat binLng driver distance rest
         else closestLoop env binLat binLng closestDriver shortestDistance rest)"

text \<open>
  \<open>findBestAvailableDriver\<close>; its \<open>catch\<close> block answers \<open>null\<close> when the driver
  query raises.
\<close>

definition findBestAvailableDriver :: "Env \<Rightarrow> Store \<Rightarrow> real \<Rightarrow> real \<Rightarrow> string option" where
  "findBestAvailableDriver env s binLat binLng =
     (if driverQueryFails env then None
      else case filter availableDriver (drivers s) of
             [] \<Rightarrow> None
           | first # rest \<Rightarrow>
               Some (drv_id (closestLoop env binLat binLng first
                               (driverDistance env binLat binLng first) rest)))"

section \<open>Pickup lifecycle: creation\<close>

record CreatePickupRequest =
  rq_binId :: string
  rq_driverId :: "string option"
  rq_scheduledAt :: "timestamp option"
  rq_priority :: "Priority option"
  rq_notes :: "string option"
  rq_pickupType :: "PickupType option"

text \<open>
  The response of \<open>formatPickupResponse\<close>: the pickup row, its joined bin row, and the
  priority and pickup type passed in by the caller (neither is read from the row).
\<close>

record PickupResponse =
  pickup :: Pickup
  priority :: Priority
  pickupType :: PickupType
  bin :: Bin
  actualDuration :: "int option"

definition formatPickupResponse :: "Pickup \<Rightarrow> Bin \<Rightarrow> Priority \<Rightarrow> PickupType \<Rightarrow> PickupResponse" where
  "formatPickupResponse p b prio ptype =
     \<lparr> pickup = p, priority = prio, pickupType = ptype, bin = b,
       actualDuration =
         (case (startedAt p, completedAt p) of
            (Some st, Some co) \<Rightarrow> Some (js_round (real_of_int (co - st) / (1000 * 60)))
          | _ \<Rightarrow> None) \<rparr>"

text \<open>
  \<open>calculateScheduledTime\<close>, with the clock reading \<open>now\<close> as an argument. The
  \<open>default\<close> branch of the \<open>switch\<close> is for strings that are no priority.
\<close>

fun calculateScheduledTime :: "timestamp \<Rightarrow> Priority \<Rightarrow> timestamp" where
  "calculateScheduledTime now URGENT = now + 30 * 60 * 1000"
| "calculateScheduledTime now HIGH = now + 2 * 60 * 60 * 1000"
| "calculateScheduledTime now MEDIUM = now + 4 * 60 * 60 * 1000"
| "calculateScheduledTime now LOW = now + 24 * 60 * 60 * 1000"

text \<open>The priority computed in \<open>createPickup\<close> from the request and the fill level.\<close>

definition derivePriority :: "Priority option \<Rightarrow> real \<Rightarrow> Priority" where
  "derivePriority requested level =
     (let priority = (case requested of Some p \<Rightarrow> p | None \<Rightarrow> MEDIUM)
      in if level \<ge> 95 then URGENT
         else if level \<ge> 85 then HIGH
         else priority)"

text \<open>The check on an explicitly requested driver: it exists, its user is active, it is available.\<close>

definition driverUsable :: "Store \<Rightarrow> string \<Rightarrow> bool" where
  "driverUsable s did =
     (case find (\<lambda>d. drv_id d = did) (drivers s) of
        None \<Rightarrow> False
      | Some d \<Rightarrow> userIsActive d \<and> isAvailable d)"

text \<open>
  \<open>createPickup\<close>, with \<open>now\<close> the clock reading of \<open>calculateScheduledTime\<close>. The
  insert is taken to succeed; the row does not receive the priority, which only reaches
  the scheduled time and the response, and its \<open>createdAt\<close> is the database's stamp.
\<close>

definition createPickup ::
  "Env \<Rightarrow> timestamp \<Rightarrow> Store \<Rightarrow> CreatePickupRequest \<Rightarrow> UserRole \<Rightarrow> string
     \<Rightarrow> error + (Store \<times> PickupResponse)" where
  "createPickup env now s data requestUserRole requestUserId =
     (case find (\<lambda>b. bin_id b = rq_binId data) (bins s) of
        None \<Rightarrow> Inl (AppError 404 ''Bin not found'')
      | Some b \<Rightarrow>
          if requestUserRole = USER \<and> bin_userId b \<noteq> Some requestUserId
          then Inl (AppError 403 ''You can only create pickups for your own bins'')
          else if truthy (rq_driverId data) \<and> \<not> driverUsable s (the (rq_driverId data))
          then Inl (AppError 400 ''Driver not found or not available'')
          else
            let level = currentLevel b;
                assignedDriverId =
                  (if \<not> truthy (rq_driverId data) \<and> level \<ge> 80
                   then (let bestDriver = findBestAvailableDriver env s (latitude b) (longitude b)
                         in if truthy bestDriver then bestDriver else None)
                   else rq_driverId data);
                prio = derivePriority (rq_priority data) level;
                row = \<lparr> pk_id = nextId s,
                        binId = rq_binId data,
                        driverId = assignedDriverId,
                        createdById = requestUserId,
                        scheduledAt =
                          (case rq_scheduledAt data of
                             Some t \<Rightarrow> Some t
                           | None \<Rightarrow> Some (calculateScheduledTime now prio)),
                        startedAt = None,
                        completedAt = None,
                        pk_notes = rq_notes data,
                        pk_status = SCHEDULED,
                        createdAt = insertTime env \<rparr>;
                s' = s\<lparr> pickups := pickups s @ [row], nextId := Suc (nextId s) \<rparr>
            in Inr (s', formatPickupResponse row b prio
                          (case rq_pickupType data of Some t \<Rightarrow> t | None \<Rightarrow> ON_DEMAND)))"

section \<open>Pickup lifecycle: status transitions\<close>

text \<open>
  Prisma's \<open>update\<close> on a unique key changes the one row \<open>findUnique\<close> returns: the
  first row of the table with that key.
\<close>

fun updateFirst :: "('a \<Rightarrow> bool) \<Rightarrow> ('a \<Rightarrow> 'a) \<Rightarrow> 'a list \<Rightarrow> 'a list" where
  "updateFirst P f [] = []"
| "updateFirst P f (x # xs) = (if P x then f x # xs else x # updateFirst P f xs)"

text \<open>
  \<open>getPickupById\<close>: the row with its joined bin, after the permission checks. A pickup
  whose bin row is missing makes \<open>formatPickupResponse\<close> read a field of \<open>null\<close>.
\<close>

definition getPickupById :: "Store \<Rightarrow> nat \<Rightarrow> UserRole \<Rightarrow> string \<Rightarrow> error + PickupResponse" where
  "getPickupById s pickupId requestUserRole requestUserId =
     (case find (\<lambda>p. pk_id p = pickupId) (pickups s) of
        None \<Rightarrow> Inl (AppError 404 ''Pickup not found'')
      | Some p \<Rightarrow>
          if requestUserRole = USER \<and> createdById p \<noteq> requestUserId
          then Inl (AppError 403 ''Access denied'')
          else if requestUserRole = DRIVER \<and>
                  (case find (\<lambda>d. drv_userId d = requestUserId) (drivers s) of
                     None \<Rightarrow> True
                   | Some d \<Rightarrow> driverId p \<noteq> Some (drv_id d))
          then Inl (AppError 403 ''Access denied'')
          else (case find (\<lambda>b. bin_id b = binId p) (bins s) of
                  None \<Rightarrow> Inl TypeError
                | Some b \<Rightarrow> Inr (formatPickupResponse p b MEDIUM ON_DEMAND)))"

record PickupStatusUpdate =
  su_status :: PickupStatus
  su_notes :: "string option"

text \<open>
  The \<open>data\<close> object of a pickup update; a field that is \<open>undefined\<close> (\<open>None\<close>) is
  left as it is by Prisma.
\<close>

record PickupUpdateData =
  ud_status :: PickupStatus
  ud_notes :: "string option"
  ud_startedAt :: "timestamp option"
  ud_completedAt :: "timestamp option"

definition applyUpdateData :: "PickupUpdateData \<Rightarrow> Pickup \<Rightarrow> Pickup" where
  "applyUpdateData u p =
     p\<lparr> pk_status := ud_status u,
        pk_notes := (case ud_notes u of None \<Rightarrow> pk_notes p | Some n \<Rightarrow> Some n),
        startedAt := (case ud_startedAt u of None \<Rightarrow> startedAt p | Some t \<Rightarrow> Some t),
        completedAt := (case ud_completedAt u of None \<Rightarrow> completedAt p | Some t \<Rightarrow> Some t) \<rparr>"

definition pickupUpdate :: "Store \<Rightarrow> nat \<Rightarrow> PickupUpdateData \<Rightarrow> Store" where
  "pickupUpdate s pickupId u =
     s\<lparr> pickups := updateFirst (\<lambda>p. pk_id p = pickupId) (applyUpdateData u) (pickups s) \<rparr>"

text \<open>The bin write of a completion: level 0, status \<open>EMPTY\<close>, \<open>lastEmptied\<close> now.\<close>

definition binEmptied :: "Store \<Rightarrow> string \<Rightarrow> timestamp \<Rightarrow> Store" where
  "binEmptied s bid now =
     s\<lparr> bins := updateFirst (\<lambda>b. bin_id b = bid)
                    (\<lambda>b. b\<lparr> currentLevel := 0, bin_status := EMPTY, lastEmptied := Some now \<rparr>)
                    (bins s) \<rparr>"

text \<open>
  The two writes of the status operations can each raise. \<open>fails\<close> says which write
  raises in the run at hand; the operation returns the store it leaves behind together
  with its outcome, so that a write done before an exception stays visible.
\<close>

datatype DbWrite = BinUpdate | PickupUpdate

definition updatePickupStatus ::
  "(DbWrite \<Rightarrow> bool) \<Rightarrow> timestamp \<Rightarrow> Store \<Rightarrow> nat \<Rightarrow> PickupStatusUpdate \<Rightarrow> UserRole \<Rightarrow> string
     \<Rightarrow> Store \<times> (error + string)" where
  "updatePickupStatus fails now s pickupId statusData requestUserRole requestUserId =
     (case getPickupById s pickupId requestUserRole requestUserId of
        Inl e \<Rightarrow> (s, Inl e)
      | Inr existingPickup \<Rightarrow>
          let updateData = \<lparr> ud_status = su_status statusData, ud_notes = su_notes statusData,
                             ud_startedAt = None, ud_completedAt = None \<rparr>
          in if su_status statusData = IN_PROGRESS \<and> startedAt (pickup existingPickup) = None
             then (if fails PickupUpdate then (s, Inl DbError)
                   else (pickupUpdate s pickupId (updateData\<lparr> ud_startedAt := Some now \<rparr>),
                         Inr ''Pickup status updated successfully''))
             else if su_status statusData = COMPLETED \<and> completedAt (pickup existingPickup) = None
             then (if fails BinUpdate then (s, Inl DbError)
                   else let s1 = binEmptied s (bin_id (bin existingPickup)) now
                        in if fails PickupUpdate then (s1, Inl DbError)
                           else (pickupUpdate s1 pickupId (updateData\<lparr> ud_completedAt := Some now \<rparr>),
                                 Inr ''Pickup status updated successfully''))
             else (if fails PickupUpdate then (s, Inl DbError)
                   else (pickupUpdate s pickupId updateData,
                         Inr ''Pickup status updated successfully'')))"

definition cancelPickup ::
  "(DbWrite \<Rightarrow> bool) \<Rightarrow> Store \<Rightarrow> nat \<Rightarrow> string \<Rightarrow> UserRole \<Rightarrow> string \<Rightarrow> Store \<times> (error + string)" where
  "cancelPickup fails s pickupId reason requestUserRole requestUserId =
     (case getPickupById s pickupId requestUserRole requestUserId of
        Inl e \<Rightarrow> (s, Inl e)
      | Inr existingPickup \<Rightarrow>
          if pk_status (pickup existingPickup) = COMPLETED
          then (s, Inl (AppError 400 ''Cannot cancel completed pickup''))
          else if fails PickupUpdate then (s, Inl DbError)
          else (pickupUpdate s pickupId
                  \<lparr> ud_status = CANCELLED, ud_notes = Some reason,
                    ud_startedAt = None, ud_completedAt = None \<rparr>,
                Inr ''Pickup cancelled successfully''))"

section \<open>Dispatch scheduler: automatic pickups\<close>

text \<open>The \<open>none\<close> relation filter: the bin has no pickup that is scheduled or in progress.\<close>

definition hasPendingPickup :: "Store \<Rightarrow> Bin \<Rightarrow> bool" where
  "hasPendingPickup s b =
     list_ex (\<lambda>p. binId p = bin_id b \<and> (pk_status p = SCHEDULED \<or> pk_status p = IN_PROGRESS))
       (pickups s)"

definition fullBins :: "Store \<Rightarrow> Bin list" where
  "fullBins s =
     filter (\<lambda>b. currentLevel b \<ge> 80 \<and> isActive b \<and> \<not> hasPendingPickup s b) (bins s)"






section \<open>Driver locator: drivers within a radius\<close>

record NearbyDriversQuery =
  q_latitude :: real
  q_longitude :: real
  q_radius :: "real option"
  q_limit :: "nat option"
  q_status :: "DriverStatus option"

text \<open>\<open>query.radius || 10\<close> and \<open>query.limit || 20\<close>: a missing value and 0 are both falsy.\<close>

definition effectiveRadius :: "NearbyDriversQuery \<Rightarrow> real" where
  "effectiveRadius query = (case q_radius query of None \<Rightarrow> 10 | Some r \<Rightarrow> if r = 0 then 10 else r)"

definition effectiveLimit :: "NearbyDriversQuery \<Rightarrow> nat" where
  "effectiveLimit query = (case q_limit query of None \<Rightarrow> 20 | Some l \<Rightarrow> if l = 0 then 20 else l)"

text \<open>
  The bounding box of the \<open>where\<close> clause. Where the cosine is 0 the JavaScript quotient
  is an infinity: every longitude is inside the box for a positive radius and none for a
  negative one.
\<close>

definition inLatitudeBox :: "NearbyDriversQuery \<Rightarrow> real \<Rightarrow> bool" where
  "inLatitudeBox query la =
     (let radius = effectiveRadius query;
          latitude = q_latitude query
      in latitude - radius / 111 \<le> la \<and> la \<le> latitude + radius / 111)"

definition inLongitudeBox :: "NearbyDriversQuery \<Rightarrow> real \<Rightarrow> bool" where
  "inLongitudeBox query lo =
     (let radius = effectiveRadius query;
          latitude = q_latitude query;
          longitude = q_longitude query;
          c = 111 * cos (latitude * pi / 180)
      in if c = 0 then 0 < radius
         else longitude - radius / c \<le> lo \<and> lo \<le> longitude + radius / c)"

text \<open>
  The \<open>where\<close> clause of \<open>getNearbyDrivers\<close>. A \<open>null\<close> coordinate satisfies no range
  condition.
\<close>

definition nearbyWhere :: "NearbyDriversQuery \<Rightarrow> Driver \<Rightarrow> bool" where
  "nearbyWhere query d =
     (isAvailable d \<and> userIsActive d \<and>
      drv_status d = (case q_status query of Some st \<Rightarrow> st | None \<Rightarrow> ONLINE) \<and>
      (case currentLatitude d of None \<Rightarrow> False | Some la \<Rightarrow> inLatitudeBox query la) \<and>
      (case currentLongitude d of None \<Rightarrow> False | Some lo \<Rightarrow> inLongitudeBox query lo))"

text \<open>The distance reported for a driver: \<open>Math.round(distance * 100) / 100\<close>.\<close>

definition reportedDistance :: "Env \<Rightarrow> NearbyDriversQuery \<Rightarrow> Driver \<Rightarrow> jsnum" where
  "reportedDistance env query d =
     jsMap (\<lambda>distance. real_of_int (js_round (distance * 100)) / 100)
       (driverDistance env (q_latitude query) (q_longitude query) d)"

text \<open>The value of a computed number that is not \<open>NaN\<close>.\<close>

fun finiteValue :: "jsnum \<Rightarrow> real" where
  "finiteValue (Finite x) = x"
| "finiteValue NaN = 0"

text \<open>
  \<open>getNearbyDrivers\<close> returns each driver with its reported distance. The coordinate
  columns are Decimal objects, which are truthy whatever their value, so the filter on
  them keeps what is not \<open>null\<close>. The filter on the radius drops a \<open>NaN\<close>, so the sort
  compares finite distances only; \<open>Array.prototype.sort\<close> is stable, as \<open>sort_key\<close> is.
\<close>

definition getNearbyDrivers :: "Env \<Rightarrow> Store \<Rightarrow> NearbyDriversQuery \<Rightarrow> (Driver \<times> jsnum) list" where
  "getNearbyDrivers env s query =
     (let radius = effectiveRadius query;
          limit = effectiveLimit query;
          found = take limit (filter (nearbyWhere query) (drivers s));
          located = filter (\<lambda>d. currentLatitude d \<noteq> None \<and> currentLongitude d \<noteq> None) found;
          withDistance = map (\<lambda>d. (d, reportedDistance env query d)) located
      in sort_key (\<lambda>dd. finiteValue (snd dd))
           (filter (\<lambda>dd. jsLessEq (snd dd) (Finite radius)) withDistance))"

section \<open>Route optimizer\<close>

record Coordinates =
  co_latitude :: real
  co_longitude :: real

text \<open>An element of \<open>optimizedPickups\<close>: a pickup's key, its bin and the bin's coordinates.\<close>

record RoutePickup =
  rp_pickupId :: nat
  rp_bin :: Bin
  rp_latitude :: real
  rp_longitude :: real

definition routePickup :: "Pickup \<times> Bin \<Rightarrow> RoutePickup" where
  "routePickup pb =
     \<lparr> rp_pickupId = pk_id (fst pb), rp_bin = snd pb,
       rp_latitude = latitude (snd pb), rp_longitude = longitude (snd pb) \<rparr>"

definition positionOf :: "RoutePickup \<Rightarrow> Coordinates" where
  "positionOf p = \<lparr> co_latitude = rp_latitude p, co_longitude = rp_longitude p \<rparr>"

definition legDistance :: "Env \<Rightarrow> Coordinates \<Rightarrow> RoutePickup \<Rightarrow> jsnum" where
  "legDistance env currentLocation p =
     calculateDistance env (co_latitude currentLocation) (co_longitude currentLocation)
       (rp_latitude p) (rp_longitude p)"

text \<open>
  The inner \<open>for\<close> loop of \<open>nearestNeighborOptimization\<close> over \<open>remaining[i]\<close> for
  \<open>i\<close> from 1, with \<open>nearestIndex\<close> and \<open>shortestDistance\<close> as arguments.
\<close>

fun nearestLoop :: "Env \<Rightarrow> Coordinates \<Rightarrow> RoutePickup list \<Rightarrow> nat \<Rightarrow> nat \<Rightarrow> jsnum \<Rightarrow> nat" where
  "nearestLoop env currentLocation [] i nearestIndex shortestDistance = nearestIndex"
| "nearestLoop env currentLocation (p # ps) i nearestIndex shortestDistance =
     (let distance = legDistance env currentLocation p
      in if jsLess distance shortestDistance
         then nearestLoop env currentLocation ps (Suc i) i distance
         else nearestLoop env currentLocation ps (Suc i) nearestIndex shortestDistance)"

text \<open>
  The \<open>while\<close> loop. \<open>remaining.splice(nearestIndex, 1)[0]\<close> is \<open>undefined\<close> for an
  index outside the array, and reading its latitude raises.
\<close>

fun nearestNeighborLoop ::
  "Env \<Rightarrow> RoutePickup list \<Rightarrow> RoutePickup list \<Rightarrow> Coordinates \<Rightarrow> error + RoutePickup list" where
  "nearestNeighborLoop env optimized [] currentLocation = Inr optimized"
| "nearestNeighborLoop env optimized (r # rs) currentLocation =
     (let nearestIndex = nearestLoop env currentLocation rs 1 0 (legDistance env currentLocation r)
      in if nearestIndex < length (r # rs)
         then nearestNeighborLoop env (optimized @ [(r # rs) ! nearestIndex])
                (take nearestIndex (r # rs) @ drop (Suc nearestIndex) (r # rs))
                (positionOf ((r # rs) ! nearestIndex))
         else Inl TypeError)"

definition nearestNeighborOptimization ::
  "Env \<Rightarrow> Coordinates \<Rightarrow> RoutePickup list \<Rightarrow> error + RoutePickup list" where
  "nearestNeighborOptimization env startLocation pickups_in =
     nearestNeighborLoop env [] pickups_in startLocation"

text \<open>The loop that adds up the legs of the optimized sequence.\<close>

fun totalDistanceLoop :: "Env \<Rightarrow> jsnum \<Rightarrow> Coordinates \<Rightarrow> RoutePickup list \<Rightarrow> jsnum" where
  "totalDistanceLoop env acc currentLocation [] = acc"
| "totalDistanceLoop env acc currentLocation (p # ps) =
     totalDistanceLoop env (jsPlus acc (legDistance env currentLocation p)) (positionOf p) ps"

text \<open>
  What the route computation hands on: the stop sequence, the total distance and the
  estimated duration in minutes.
\<close>

record RoutePlan =
  optimizedPickups :: "RoutePickup list"
  plan_totalDistance :: jsnum
  plan_estimatedDuration :: jsnum

text \<open>The \<open>catch\<close> block of \<open>optimizePickupRoute\<close>: the nearest-neighbour fallback.\<close>

definition fallbackPlan :: "Env \<Rightarrow> Coordinates \<Rightarrow> RoutePickup list \<Rightarrow> error + RoutePlan" where
  "fallbackPlan env startLocation ps =
     (case nearestNeighborOptimization env startLocation ps of
        Inl e \<Rightarrow> Inl e
      | Inr optimized \<Rightarrow>
          let totalDist = totalDistanceLoop env (Finite 0) startLocation optimized;
              travelTimeMinutes = jsMap (\<lambda>t. (t / 30) * 60) totalDist;
              pickupTimeMinutes = real (length optimized) * 5
          in Inr \<lparr> optimizedPickups = optimized, plan_totalDistance = totalDist,
                   plan_estimatedDuration =
                     jsMap (\<lambda>t. real_of_int (js_round (t + pickupTimeMinutes))) travelTimeMinutes \<rparr>)"

text \<open>
  The mapping collaborator. Of its answer the optimizer reads the distance, the duration
  and how many steps there are (\<open>None\<close>: no \<open>steps\<close> field).
\<close>

record RouteResponse =
  distance :: real
  duration :: real
  steps :: "nat option"

type_synonym routing = "Coordinates \<Rightarrow> Coordinates \<Rightarrow> Coordinates list \<Rightarrow> error + RouteResponse"

text \<open>\<open>calculateHaversineDistance\<close> of the mapping service; the result is in metres.\<close>

definition calculateHaversineDistance :: "Env \<Rightarrow> Coordinates \<Rightarrow> Coordinates \<Rightarrow> jsnum" where
  "calculateHaversineDistance env coord1 coord2 =
     (let R = 6371000;
          phi1 = (co_latitude coord1 * pi) / 180;
          phi2 = (co_latitude coord2 * pi) / 180;
          dphi = ((co_latitude coord2 - co_latitude coord1) * pi) / 180;
          dlambda = ((co_longitude coord2 - co_longitude coord1) * pi) / 180;
          a = sin (dphi / 2) * sin (dphi / 2) +
              cos phi1 * cos phi2 * sin (dlambda / 2) * sin (dlambda / 2) +
              mapsRounding env (co_latitude coord1) (co_longitude coord1)
                (co_latitude coord2) (co_longitude coord2);
          c = jsMap (\<lambda>v. 2 * v) (jsAtan2 (jsSqrt a) (jsSqrt (1 - a)))
      in jsMap (\<lambda>v. R * v) c)"

text \<open>
  The \<open>try\<close> block and its \<open>catch\<close>. With more than one pickup the collaborator is
  asked; an error from it, or an index of \<open>optimizedOrder\<close> beyond the pickups, raises
  inside the \<open>try\<close> and leads to the fallback, as does reading \<open>waypoints[0]\<close> of
  no pickups at all. One pickup alone never reaches the collaborator.
\<close>

definition planRoute :: "Env \<Rightarrow> routing \<Rightarrow> Coordinates \<Rightarrow> RoutePickup list \<Rightarrow> error + RoutePlan" where
  "planRoute env getRoute startLocation ps =
     (let waypoints = map positionOf ps
      in if length waypoints > 1
         then (case getRoute startLocation (last waypoints) (butlast waypoints) of
                 Inl err \<Rightarrow> fallbackPlan env startLocation ps
               | Inr routeResponse \<Rightarrow>
                   let n = (case steps routeResponse of Some k \<Rightarrow> k | None \<Rightarrow> length waypoints)
                   in if n > length ps then fallbackPlan env startLocation ps
                      else Inr \<lparr> optimizedPickups = take n ps,
                                 plan_totalDistance = Finite (distance routeResponse),
                                 plan_estimatedDuration =
                                   Finite (real_of_int
                                     (js_round (duration routeResponse / 60 + real (length ps) * 5))) \<rparr>)
         else (case ps of
                 [] \<Rightarrow> fallbackPlan env startLocation ps
               | p # rest \<Rightarrow>
                   let totalDist = calculateHaversineDistance env startLocation (positionOf p)
                   in Inr \<lparr> optimizedPickups = ps, plan_totalDistance = totalDist,
                            plan_estimatedDuration =
                              jsMap (\<lambda>t. real_of_int (js_round ((t / 30) * 60 + 5))) totalDist \<rparr>))"

text \<open>
  \<open>new Date(ms)\<close> drops the fraction of a millisecond count; of \<open>NaN\<close>, or from an
  invalid date, it is an invalid date (\<open>None\<close>).
\<close>

definition newDate :: "real \<Rightarrow> timestamp" where
  "newDate ms = (if 0 \<le> ms then \<lfloor>ms\<rfloor> else \<lceil>ms\<rceil>)"

fun laterDate :: "timestamp option \<Rightarrow> jsnum \<Rightarrow> timestamp option" where
  "laterDate (Some t) (Finite ms) = Some (newDate (real_of_int t + ms))"
| "laterDate t ms = None"

text \<open>
  The loop that creates the stops: \<open>i\<close> is the index, \<open>previous\<close> the stop before
  (\<open>None\<close> at index 0), \<open>currentTime\<close> the running arrival time.
\<close>

fun stopsLoop ::
  "Env \<Rightarrow> nat \<Rightarrow> nat \<Rightarrow> RoutePickup option \<Rightarrow> timestamp option \<Rightarrow> RoutePickup list
     \<Rightarrow> (RoutePickup \<times> RouteStop) list" where
  "stopsLoop env routeId i previous currentTime [] = []"
| "stopsLoop env routeId i previous currentTime (p # ps) =
     (let currentTime' =
            (case previous of
               None \<Rightarrow> currentTime
             | Some q \<Rightarrow>
                 let segmentDistance = legDistance env (positionOf q) p;
                     travelTime = jsMap (\<lambda>d. (d / 30) * 60) segmentDistance
                 in laterDate currentTime (jsMap (\<lambda>t. (t + 5) * 60 * 1000) travelTime));
          routeStop = \<lparr> stop_routeId = routeId, stop_binId = bin_id (rp_bin p),
                        stopOrder = i + 1, estimatedArrival = currentTime',
                        stop_status = SCHEDULED \<rparr>
      in (p, routeStop) # stopsLoop env routeId (Suc i) (Some p) currentTime' ps)"

record PickupRouteOptimization =
  ro_driverId :: string
  ro_pickupIds :: "nat list"
  ro_startLocation :: "Coordinates option"

record OptimizedRoute =
  or_routeId :: nat
  or_driverId :: string
  or_totalDistance :: jsnum
  or_estimatedDuration :: jsnum
  or_pickups :: "(RoutePickup \<times> RouteStop) list"

text \<open>
  The \<open>findMany\<close> of the requested pickups that are scheduled, and the join with their
  bins: reading the coordinates of a bin that is not there raises.
\<close>

definition scheduledPickups :: "Store \<Rightarrow> nat list \<Rightarrow> Pickup list" where
  "scheduledPickups s ids =
     filter (\<lambda>p. pk_id p \<in> set ids \<and> pk_status p = SCHEDULED) (pickups s)"

definition withBins :: "Store \<Rightarrow> Pickup list \<Rightarrow> (Pickup \<times> Bin) list option" where
  "withBins s ps =
     those (map (\<lambda>p. map_option (\<lambda>b. (p, b)) (find (\<lambda>b. bin_id b = binId p) (bins s))) ps)"

text \<open>The \<open>updateMany\<close> that hands the requested pickups to the driver.\<close>

definition assignPickups :: "Store \<Rightarrow> nat list \<Rightarrow> string \<Rightarrow> Store" where
  "assignPickups s ids did =
     s\<lparr> pickups := map (\<lambda>p. if pk_id p \<in> set ids then p\<lparr> driverId := Some did \<rparr> else p) (pickups s) \<rparr>"

text \<open>
  \<open>optimizePickupRoute\<close>. The route and its stops are taken to be stored as computed,
  also where a number is \<open>NaN\<close> or a date invalid.
\<close>

definition optimizePickupRoute ::
  "Env \<Rightarrow> routing \<Rightarrow> timestamp \<Rightarrow> Store \<Rightarrow> PickupRouteOptimization
     \<Rightarrow> error + (Store \<times> OptimizedRoute)" where
  "optimizePickupRoute env getRoute now s data =
     (case find (\<lambda>d. drv_id d = ro_driverId data) (drivers s) of
        None \<Rightarrow> Inl (AppError 404 ''Driver not found'')
      | Some driver \<Rightarrow>
          let rows = scheduledPickups s (ro_pickupIds data)
          in if length rows = 0
             then Inl (AppError 400 ''No valid pickups found for optimization'')
             else
               let startLocation =
                     (case ro_startLocation data of
                        Some l \<Rightarrow> l
                      | None \<Rightarrow>
                          \<lparr> co_latitude =
                              (case currentLatitude driver of Some la \<Rightarrow> la | None \<Rightarrow> 8.4840),
                            co_longitude =
                              (case currentLongitude driver of Some lo \<Rightarrow> lo | None \<Rightarrow> - 13.2299) \<rparr>)
               in case withBins s rows of
                    None \<Rightarrow> Inl TypeError
                  | Some found \<Rightarrow>
                 (case planRoute env getRoute startLocation (map routePickup found) of
                    Inl e \<Rightarrow> Inl e
                  | Inr plan \<Rightarrow>
                      let route = \<lparr> rt_id = nextId s, rt_driverId = ro_driverId data,
                                    totalDistance = plan_totalDistance plan,
                                    estimatedDuration = plan_estimatedDuration plan,
                                    rt_status = PLANNED \<rparr>;
                          stops = stopsLoop env (rt_id route) 0 None (Some now) (optimizedPickups plan);
                          s1 = s\<lparr> routes := routes s @ [route],
                                  routeStops := routeStops s @ map snd stops,
                                  nextId := Suc (nextId s) \<rparr>;
                          s2 = assignPickups s1 (ro_pickupIds data) (ro_driverId data)
                      in Inr (s2, \<lparr> or_routeId = rt_id route,
                                    or_driverId = ro_driverId data,
                                    or_totalDistance =
                                      jsMap (\<lambda>t. real_of_int (js_round (t * 100)) / 100)
                                        (plan_totalDistance plan),
                                    or_estimatedDuration = plan_estimatedDuration plan,
                                    or_pickups = stops \<rparr>)))"

section \<open>Rows created by the scheduler\<close>


section \<open>Example data\<close>

text \<open>Concrete rows and stores on which the theorems below are exercised.\<close>

definition exampleBin :: "real \<Rightarrow> Bin" where
  "exampleBin level =
     \<lparr> bin_id = ''bin-1'', binCode = ''BIN001'', location = ''Freetown'',
       latitude = 0, longitude = 0, currentLevel = level, bin_status = FULL,
       lastEmptied = None, isActive = True, bin_userId = Some ''user-1'' \<rparr>"

definition exampleDriver :: "string \<Rightarrow> real \<Rightarrow> Driver" where
  "exampleDriver did lng =
     \<lparr> drv_id = did, drv_userId = ''user-'' @ did, drv_status = ONLINE, isAvailable = True,
       currentLatitude = Some 0, currentLongitude = Some lng, userIsActive = True \<rparr>"

definition examplePickup :: "nat \<Rightarrow> PickupStatus \<Rightarrow> timestamp option \<Rightarrow> timestamp option \<Rightarrow> Pickup" where
  "examplePickup pid st started completed =
     \<lparr> pk_id = pid, binId = ''bin-1'', driverId = None, createdById = ''user-1'',
       scheduledAt = Some 1000, startedAt = started, completedAt = completed,
       pk_notes = None, pk_status = st, createdAt = 0 \<rparr>"

definition exampleStore :: "real \<Rightarrow> Pickup list \<Rightarrow> Store" where
  "exampleStore level ps =
     \<lparr> bins = [exampleBin level], drivers = [exampleDriver ''d1'' 0, exampleDriver ''d2'' 180],
       pickups = ps, routes = [], routeStops = [], nextId = 10 \<rparr>"

definition exampleRequest :: "Priority option \<Rightarrow> CreatePickupRequest" where
  "exampleRequest p =
     \<lparr> rq_binId = ''bin-1'', rq_driverId = None, rq_scheduledAt = None, rq_priority = p,
       rq_notes = None, rq_pickupType = None \<rparr>"

text \<open>
  A run whose arithmetic is exact and whose driver query answers, with the database
  stamping inserts at the given time; and one that differs from it only by rounding the
  haversine term of (-82, -180) and (82, 0) up by 2 to the power -52.
\<close>

definition exactEnv :: "timestamp \<Rightarrow> Env" where
  "exactEnv t =
     \<lparr> rounding = (\<lambda>lat1 lng1 lat2 lng2. 0), mapsRounding = (\<lambda>lat1 lng1 lat2 lng2. 0),
       driverQueryFails = False, insertTime = t \<rparr>"

definition antipodalEnv :: Env where
  "antipodalEnv =
     (exactEnv 0)\<lparr> rounding :=
       (\<lambda>lat1 lng1 lat2 lng2.
          if lat1 = - 82 \<and> lng1 = - 180 \<and> lat2 = 82 \<and> lng2 = 0 then 1 / 2 ^ 52 else 0) \<rparr>"

text \<open>
  A position near the south pole on the date line, a driver and a stop at its antipode, and
  a driver and a stop one degree of longitude away from it.
\<close>

definition polarPosition :: Coordinates where
  "polarPosition = \<lparr> co_latitude = - 82, co_longitude = - 180 \<rparr>"

definition driverAt :: "string \<Rightarrow> real \<Rightarrow> real \<Rightarrow> Driver" where
  "driverAt did la lo =
     \<lparr> drv_id = did, drv_userId = ''user-'' @ did, drv_status = ONLINE, isAvailable = True,
       currentLatitude = Some la, currentLongitude = Some lo, userIsActive = True \<rparr>"

definition polarStore :: Store where
  "polarStore =
     \<lparr> bins = [], drivers = [driverAt ''far'' 82 0, driverAt ''near'' (- 82) (- 179)],
       pickups = [], routes = [], routeStops = [], nextId = 0 \<rparr>"

text \<open>A run in which no write raises, and one in which the pickup write does.\<close>

definition noFault :: "DbWrite \<Rightarrow> bool" where
  "noFault w = False"

definition pickupWriteFails :: "DbWrite \<Rightarrow> bool" where
  "pickupWriteFails w = (w = PickupUpdate)"

text \<open>A stop of a route, and a mapping collaborator that always fails.\<close>

definition examplePoint :: "nat \<Rightarrow> real \<Rightarrow> real \<Rightarrow> RoutePickup" where
  "examplePoint pid la lo =
     \<lparr> rp_pickupId = pid, rp_bin = (exampleBin 90)\<lparr> latitude := la, longitude := lo \<rparr>,
       rp_latitude = la, rp_longitude = lo \<rparr>"

definition routingDown :: routing where
  "routingDown origin destination waypoints = Inl DbError"

text \<open>A request to route pickups 1 and 2 for driver \<open>d2\<close>.\<close>

definition exampleOptimization :: PickupRouteOptimization where
  "exampleOptimization = \<lparr> ro_driverId = ''d2'', ro_pickupIds = [1, 2], ro_startLocation = None \<rparr>"


text \<open>
  A query for drivers within 10 km of the point (8, -13), and a store whose one driver
  stands 0.08997 degrees of latitude north of it.
\<close>

definition nearbyQuery :: NearbyDriversQuery where
  "nearbyQuery =
     \<lparr> q_latitude = 8, q_longitude = - 13, q_radius = Some 10, q_limit = Some 5, q_status = None \<rparr>"

definition nearbyStore :: Store where
  "nearbyStore = \<lparr> bins = [], drivers = [driverAt ''d3'' (808997 / 100000) (- 13)], pickups = [],
                    routes = [], routeStops = [], nextId = 0 \<rparr>"

section \<open>Properties of the geo-distance utility\<close>

text \<open>
  The exact value of the haversine term lies between 0 and 1, so without rounding the
  distance is a number; whenever the distance is a number it is not negative; and a
  haversine term outside that range makes the distance \<open>NaN\<close>.
\<close>

lemma atan2_nonneg: "0 \<le> y \<Longrightarrow> 0 \<le> atan2 y x"
proof -
  assume y: "0 \<le> y"
  consider "0 < x" | "x < 0" | "x = 0" by linarith
  then show ?thesis
  proof cases
    case 1
    with y have "0 \<le> y / x" by simp
    with 1 show ?thesis by (simp add: atan2_def)
  next
    case 2
    have "- (pi / 2) < arctan (y / x)" by (rule arctan_lbound)
    then have "0 \<le> arctan (y / x) + pi" using pi_gt_zero by linarith
    with 2 y show ?thesis by (simp add: atan2_def)
  next
    case 3
    with y show ?thesis by (simp add: atan2_def)
  qed
qed

lemma cos_product_bounds:
  fixes u v :: real
  shows "- (sin ((v - u) / 2))\<^sup>2 \<le> cos u * cos v"
    and "cos u * cos v \<le> 1 - (sin ((v - u) / 2))\<^sup>2"
proof -
  let ?s = "sin ((v - u) / 2)"
  have 1: "cos u * cos v = (cos (v - u) + cos (v + u)) / 2"
    by (simp add: cos_add cos_diff)
  have 2: "cos (v - u) = 1 - 2 * ?s\<^sup>2"
  proof -
    have "2 * ((v - u) / 2) = v - u" by simp
    with cos_double_sin [of "(v - u) / 2"] show ?thesis by (simp only:)
  qed
  have 3: "0 \<le> 1 + cos (u + v)"
    using cos_ge_minus_one [of "u + v"] by linarith
  have 4: "cos (u + v) \<le> 1" by simp
  have "- ?s\<^sup>2 \<le> (1 - 2 * ?s\<^sup>2 + cos (v + u)) / 2"
    using 3 by (simp add: field_simps add.commute)
  also have "\<dots> = cos u * cos v"
    by (simp only: 1 2)
  finally show "- ?s\<^sup>2 \<le> cos u * cos v" .
  have "cos u * cos v = (1 - 2 * ?s\<^sup>2 + cos (v + u)) / 2"
    by (simp only: 1 2)
  also have "\<dots> \<le> 1 - ?s\<^sup>2"
    using 4 by (simp add: field_simps add.commute)
  finally show "cos u * cos v \<le> 1 - ?s\<^sup>2" .
qed

lemma haversine_bounds:
  fixes u v w :: real
  shows "0 \<le> sin ((v - u) / 2) * sin ((v - u) / 2) + cos u * cos v * sin w * sin w"
    and "sin ((v - u) / 2) * sin ((v - u) / 2) + cos u * cos v * sin w * sin w \<le> 1"
proof -
  let ?s = "sin ((v - u) / 2)"
  have t0: "0 \<le> (sin w)\<^sup>2" by simp
  have t1: "(sin w)\<^sup>2 \<le> 1"
    using abs_sin_le_one [of w] by (simp add: abs_square_le_1)
  have s1: "?s\<^sup>2 \<le> 1"
    using abs_sin_le_one [of "(v - u) / 2"] by (simp add: abs_square_le_1)
  have "- ?s\<^sup>2 * (sin w)\<^sup>2 \<le> cos u * cos v * (sin w)\<^sup>2"
    using cos_product_bounds(1) t0 by (rule mult_right_mono)
  moreover have "?s\<^sup>2 * (sin w)\<^sup>2 \<le> ?s\<^sup>2 * 1"
    using t1 by (intro mult_left_mono) simp_all
  ultimately have "0 \<le> ?s\<^sup>2 + cos u * cos v * (sin w)\<^sup>2" by linarith
  then show "0 \<le> ?s * ?s + cos u * cos v * sin w * sin w"
    by (simp add: power2_eq_square algebra_simps)
  have "cos u * cos v * (sin w)\<^sup>2 \<le> (1 - ?s\<^sup>2) * (sin w)\<^sup>2"
    using cos_product_bounds(2) t0 by (rule mult_right_mono)
  also have "\<dots> \<le> (1 - ?s\<^sup>2) * 1"
    using t1 s1 by (intro mult_left_mono) simp_all
  finally have "?s\<^sup>2 + cos u * cos v * (sin w)\<^sup>2 \<le> 1" by simp
  then show "?s * ?s + cos u * cos v * sin w * sin w \<le> 1"
    by (simp add: power2_eq_square algebra_simps)
qed

lemma haversineTerm_exact:
  assumes "rounding env lat1 lng1 lat2 lng2 = 0"
  shows "0 \<le> haversineTerm env lat1 lng1 lat2 lng2"
    and "haversineTerm env lat1 lng1 lat2 lng2 \<le> 1"
proof -
  have d: "deg2rad (lat2 - lat1) = deg2rad lat2 - deg2rad lat1"
    by (simp add: deg2rad_def left_diff_distrib)
  show "0 \<le> haversineTerm env lat1 lng1 lat2 lng2"
    unfolding haversineTerm_def Let_def assms d
    using haversine_bounds(1) [of "deg2rad lat2" "deg2rad lat1" "deg2rad (lng2 - lng1) / 2"]
    by simp
  show "haversineTerm env lat1 lng1 lat2 lng2 \<le> 1"
    unfolding haversineTerm_def Let_def assms d
    using haversine_bounds(2) [of "deg2rad lat2" "deg2rad lat1" "deg2rad (lng2 - lng1) / 2"]
    by simp
qed

lemma calculateDistance_Finite:
  assumes "0 \<le> haversineTerm env lat1 lng1 lat2 lng2"
    and "haversineTerm env lat1 lng1 lat2 lng2 \<le> 1"
  shows "calculateDistance env lat1 lng1 lat2 lng2 =
           Finite (6371 * (2 * atan2 (sqrt (haversineTerm env lat1 lng1 lat2 lng2))
                                     (sqrt (1 - haversineTerm env lat1 lng1 lat2 lng2))))"
  using assms by (simp add: calculateDistance_def jsSqrt_def Let_def)

lemma calculateDistance_NaN:
  assumes "1 < haversineTerm env lat1 lng1 lat2 lng2"
  shows "calculateDistance env lat1 lng1 lat2 lng2 = NaN"
  using assms by (simp add: calculateDistance_def jsSqrt_def Let_def)

lemma calculateDistance_nonneg:
  assumes "calculateDistance env lat1 lng1 lat2 lng2 = Finite d"
  shows "0 \<le> d"
proof -
  let ?a = "haversineTerm env lat1 lng1 lat2 lng2"
  from assms have a: "0 \<le> ?a" and b: "?a \<le> 1"
    by (auto simp: calculateDistance_def jsSqrt_def Let_def split: if_splits)
  from a have "0 \<le> sqrt ?a" by simp
  from atan2_nonneg [OF this, of "sqrt (1 - ?a)"] assms calculateDistance_Finite [OF a b]
  show ?thesis by simp
qed

text \<open>
  Below a half turn the distance is less than half the circumference of the earth.
\<close>

lemma calculateDistance_below_half_turn:
  assumes "0 \<le> haversineTerm env lat1 lng1 lat2 lng2"
    and "haversineTerm env lat1 lng1 lat2 lng2 < 1"
  shows "\<exists>d. calculateDistance env lat1 lng1 lat2 lng2 = Finite d \<and> d < 6371 * pi"
proof -
  let ?a = "haversineTerm env lat1 lng1 lat2 lng2"
  have p: "0 < sqrt (1 - ?a)" using assms(2) by simp
  have "arctan (sqrt ?a / sqrt (1 - ?a)) < pi / 2" by (rule arctan_ubound)
  then have "atan2 (sqrt ?a) (sqrt (1 - ?a)) < pi / 2"
    using p by (simp add: atan2_def)
  then have "6371 * (2 * atan2 (sqrt ?a) (sqrt (1 - ?a))) < 6371 * pi" by simp
  with calculateDistance_Finite [OF assms(1)] assms(2) show ?thesis by simp
qed

text \<open>Distances in the run with exact arithmetic.\<close>

lemma rounding_exactEnv: "rounding (exactEnv t) lat1 lng1 lat2 lng2 = 0"
  by (simp add: exactEnv_def)

lemma calculateDistance_same: "calculateDistance (exactEnv t) la lo la lo = Finite 0"
  by (simp add: calculateDistance_def haversineTerm_def rounding_exactEnv deg2rad_def
        jsSqrt_def atan2_def)

lemma calculateDistance_half_turn: "calculateDistance (exactEnv t) 0 0 0 180 = Finite (6371 * pi)"
  by (simp add: calculateDistance_def haversineTerm_def rounding_exactEnv deg2rad_def
        jsSqrt_def atan2_def)

text \<open>
  The haversine terms around the position (-82, -180): that of its antipode (82, 0) is
  1 plus the rounding, and that of the point one degree of longitude away is, without
  rounding, less than 1.
\<close>

lemma antipodal_term:
  "haversineTerm env (- 82) (- 180) 82 0 = 1 + rounding env (- 82) (- 180) 82 0"
proof -
  have a: "deg2rad (82 - - 82) / 2 = deg2rad 82" "deg2rad (0 - - 180) / 2 = pi / 2"
    "deg2rad (- 82) = - deg2rad 82"
    by (simp_all add: deg2rad_def)
  show ?thesis
    unfolding haversineTerm_def Let_def a
    using sin_cos_squared_add [of "deg2rad 82"] by (simp add: power2_eq_square)
qed

lemma neighbour_term_exact:
  assumes "rounding env (- 82) (- 180) (- 82) (- 179) = 0"
  shows "haversineTerm env (- 82) (- 180) (- 82) (- 179) < 1"
proof -
  let ?w = "pi / 360"
  have a: "deg2rad (- 82 - - 82) / 2 = 0" "deg2rad (- 179 - - 180) / 2 = ?w"
    by (simp_all add: deg2rad_def)
  have w0: "0 \<le> ?w" by simp
  have w1: "?w < 1" using pi_less_4 by simp
  have s0: "0 \<le> sin ?w" using w0 pi_ge_zero by (intro sin_ge_zero) simp_all
  have s1: "sin ?w < 1" using sin_x_le_x [OF w0] w1 by linarith
  have "sin ?w * sin ?w < 1 * 1"
    using s0 s1 by (intro mult_strict_mono') simp_all
  then have t: "(sin ?w)\<^sup>2 < 1" by (simp add: power2_eq_square)
  have c: "(cos (deg2rad (- 82)))\<^sup>2 \<le> 1"
    using abs_cos_le_one [of "deg2rad (- 82)"] by (simp add: abs_square_le_1)
  have "(cos (deg2rad (- 82)))\<^sup>2 * (sin ?w)\<^sup>2 \<le> 1 * (sin ?w)\<^sup>2"
    using c by (intro mult_right_mono) simp_all
  with t have "(cos (deg2rad (- 82)))\<^sup>2 * (sin ?w)\<^sup>2 < 1" by simp
  then show ?thesis
    unfolding haversineTerm_def Let_def a assms by (simp add: power2_eq_square algebra_simps)
qed

section \<open>Properties of the driver locator\<close>

text \<open>No driver is found exactly when the query raises or has no candidate.\<close>

lemma findBestAvailableDriver_None:
  "findBestAvailableDriver env s binLat binLng = None \<longleftrightarrow>
     driverQueryFails env \<or> filter availableDriver (drivers s) = []"
  by (simp add: findBestAvailableDriver_def split: list.splits)

lemma polar_candidates:
  "filter availableDriver (drivers polarStore) =
     [driverAt ''far'' 82 0, driverAt ''near'' (- 82) (- 179)]"
  by (simp add: polarStore_def driverAt_def availableDriver_def)

lemma polar_driverDistance:
  "driverDistance env la lo (driverAt did la' lo') = calculateDistance env la lo la' lo'"
  "drv_id (driverAt did la' lo') = did"
  by (simp_all add: driverDistance_def driverAt_def Number_def)

text \<open>
  C8. The nearest-driver search does not return a nearest candidate when a distance is
  \<open>NaN\<close>. For a coordinate at (-82, -180), a first candidate at the antipode (82, 0) and
  a second candidate one degree of longitude away, in every run whose arithmetic rounds
  the haversine term of the antipode above 1 the search returns the first candidate,
  whose distance is \<open>NaN\<close>, although the distance of the second is a number; with exact
  arithmetic it returns the second.
\<close>

theorem findBestAvailableDriver_antipodal:
  assumes "\<not> driverQueryFails env"
    and "1 < haversineTerm env (- 82) (- 180) 82 0"
    and "0 \<le> haversineTerm env (- 82) (- 180) (- 82) (- 179)"
    and "haversineTerm env (- 82) (- 180) (- 82) (- 179) \<le> 1"
  shows "findBestAvailableDriver env polarStore (- 82) (- 180) = Some ''far'' \<and>
         driverDistance env (- 82) (- 180) (driverAt ''far'' 82 0) = NaN \<and>
         (\<exists>d. driverDistance env (- 82) (- 180) (driverAt ''near'' (- 82) (- 179)) = Finite d) \<and>
         findBestAvailableDriver (exactEnv t) polarStore (- 82) (- 180) = Some ''near''"
proof -
  have f: "calculateDistance env (- 82) (- 180) 82 0 = NaN"
    using assms(2) by (rule calculateDistance_NaN)
  note n = calculateDistance_Finite [OF assms(3,4)]
  have a: "findBestAvailableDriver env polarStore (- 82) (- 180) = Some ''far''"
    using assms(1) f n
    by (simp add: findBestAvailableDriver_def polar_candidates polar_driverDistance Let_def)
  have e1: "calculateDistance (exactEnv t) (- 82) (- 180) 82 0 = Finite (6371 * pi)"
  proof -
    have h: "haversineTerm (exactEnv t) (- 82) (- 180) 82 0 = 1"
      by (simp add: antipodal_term rounding_exactEnv)
    have "0 \<le> haversineTerm (exactEnv t) (- 82) (- 180) 82 0"
      "haversineTerm (exactEnv t) (- 82) (- 180) 82 0 \<le> 1"
      by (simp_all add: h)
    from calculateDistance_Finite [OF this] show ?thesis
      by (simp add: h atan2_def)
  qed
  have "0 \<le> haversineTerm (exactEnv t) (- 82) (- 180) (- 82) (- 179)"
    by (rule haversineTerm_exact) (rule rounding_exactEnv)
  moreover have "haversineTerm (exactEnv t) (- 82) (- 180) (- 82) (- 179) < 1"
    by (rule neighbour_term_exact) (rule rounding_exactEnv)
  ultimately obtain d where
    e2: "calculateDistance (exactEnv t) (- 82) (- 180) (- 82) (- 179) = Finite d"
    and d: "d < 6371 * pi"
    using calculateDistance_below_half_turn by blast
  have q: "\<not> driverQueryFails (exactEnv t)" by (simp add: exactEnv_def)
  have b: "findBestAvailableDriver (exactEnv t) polarStore (- 82) (- 180) = Some ''near''"
    using q e1 e2 d
    by (simp add: findBestAvailableDriver_def polar_candidates polar_driverDistance Let_def)
  from a f n b show ?thesis
    by (simp add: polar_driverDistance)
qed

text \<open>The run that rounds the antipodal term up by 2 to the power -52 is such a run.\<close>

lemma antipodalEnv_terms:
  "1 < haversineTerm antipodalEnv (- 82) (- 180) 82 0"
  "0 \<le> haversineTerm antipodalEnv (- 82) (- 180) (- 82) (- 179)"
  "haversineTerm antipodalEnv (- 82) (- 180) (- 82) (- 179) \<le> 1"
  "\<not> driverQueryFails antipodalEnv"
proof -
  have r: "rounding antipodalEnv (- 82) (- 180) (- 82) (- 179) = 0"
    by (simp add: antipodalEnv_def exactEnv_def)
  show "1 < haversineTerm antipodalEnv (- 82) (- 180) 82 0"
    by (simp add: antipodal_term antipodalEnv_def exactEnv_def)
  show "0 \<le> haversineTerm antipodalEnv (- 82) (- 180) (- 82) (- 179)"
    using r by (rule haversineTerm_exact)
  show "haversineTerm antipodalEnv (- 82) (- 180) (- 82) (- 179) \<le> 1"
    using r by (rule haversineTerm_exact)
  show "\<not> driverQueryFails antipodalEnv"
    by (simp add: antipodalEnv_def exactEnv_def)
qed

theorem findBestAvailableDriver_antipodal_witness:
  "1 < haversineTerm antipodalEnv (- 82) (- 180) 82 0 \<and>
   findBestAvailableDriver antipodalEnv polarStore (- 82) (- 180) = Some ''far'' \<and>
   driverDistance antipodalEnv (- 82) (- 180) (driverAt ''far'' 82 0) = NaN \<and>
   findBestAvailableDriver (exactEnv 0) polarStore (- 82) (- 180) = Some ''near''"
  using findBestAvailableDriver_antipodal [OF antipodalEnv_terms(4,1,2,3), of 0] antipodalEnv_terms(1)
  by simp

text \<open>The search in the example store, from its bin.\<close>

lemma exactEnv_fields:
  "\<not> driverQueryFails (exactEnv t)" "insertTime (exactEnv t) = t"
  by (simp_all add: exactEnv_def)

lemma example_findBestAvailableDriver:
  "findBestAvailableDriver (exactEnv t) (exampleStore level ps) 0 0 = Some ''d1''"
  by (simp add: findBestAvailableDriver_def exampleStore_def exampleDriver_def availableDriver_def
        driverDistance_def Number_def calculateDistance_same calculateDistance_half_turn
        exactEnv_fields)

section \<open>Properties of pickup creation\<close>

text \<open>What a successful \<open>createPickup\<close> returns and leaves in the store.\<close>

lemma createPickup_Inr:
  assumes "createPickup env now s data role uid = Inr (s', r)"
  obtains b where "find (\<lambda>b. bin_id b = rq_binId data) (bins s) = Some b"
    and "bin r = b"
    and "priority r = derivePriority (rq_priority data) (currentLevel b)"
    and "pickups s' = pickups s @ [pickup r]"
    and "scheduledAt (pickup r) =
           (case rq_scheduledAt data of Some t \<Rightarrow> Some t
            | None \<Rightarrow> Some (calculateScheduledTime now (priority r)))"
    and "createdAt (pickup r) = insertTime env" and "pk_status (pickup r) = SCHEDULED"
    and "binId (pickup r) = rq_binId data" and "pk_notes (pickup r) = rq_notes data"
    and "bins s' = bins s" and "drivers s' = drivers s"
  using assms
  by (auto simp: createPickup_def formatPickupResponse_def Let_def
           split: option.splits if_splits)

text \<open>
  C5. A successful \<open>createPickup\<close> on a container with fill level \<open>L\<close> answers with
  priority \<open>URGENT\<close> if \<open>L \<ge> 95\<close>, else \<open>HIGH\<close> if \<open>L \<ge> 85\<close>, else the priority of the
  request, or \<open>MEDIUM\<close> when the request has none. The witness runs it at fill levels
  96, 86 and 50 without a requested priority.
\<close>

theorem createPickup_priority:
  assumes "createPickup env now s data requestUserRole requestUserId = Inr (s', r)"
  shows "find (\<lambda>b. bin_id b = rq_binId data) (bins s) = Some (bin r) \<and>
         priority r =
           (if currentLevel (bin r) \<ge> 95 then URGENT
            else if currentLevel (bin r) \<ge> 85 then HIGH
            else (case rq_priority data of Some p \<Rightarrow> p | None \<Rightarrow> MEDIUM))"
  using assms by (elim createPickup_Inr) (simp add: derivePriority_def)

lemma example_createPickup:
  "\<exists>s' r. createPickup env 0 (exampleStore level []) (exampleRequest None) ADMIN ''admin'' = Inr (s', r)
     \<and> currentLevel (bin r) = level \<and> scheduledAt (pickup r) \<noteq> None"
  by (simp add: createPickup_def exampleStore_def exampleRequest_def exampleBin_def truthy_def
        formatPickupResponse_def Let_def)

theorem createPickup_priority_witness:
  "(\<exists>s' r. createPickup (exactEnv 0) 0 (exampleStore 96 []) (exampleRequest None) ADMIN ''admin'' = Inr (s', r)
      \<and> priority r = URGENT) \<and>
   (\<exists>s' r. createPickup (exactEnv 0) 0 (exampleStore 86 []) (exampleRequest None) ADMIN ''admin'' = Inr (s', r)
      \<and> priority r = HIGH) \<and>
   (\<exists>s' r. createPickup (exactEnv 0) 0 (exampleStore 50 []) (exampleRequest None) ADMIN ''admin'' = Inr (s', r)
      \<and> priority r = MEDIUM)"
proof -
  have a: "\<exists>s' r. createPickup (exactEnv 0) 0 (exampleStore level []) (exampleRequest None) ADMIN ''admin'' = Inr (s', r)
      \<and> priority r = (if level \<ge> 95 then URGENT else if level \<ge> 85 then HIGH else MEDIUM)" for level
  proof -
    obtain s' r where c: "createPickup (exactEnv 0) 0 (exampleStore level []) (exampleRequest None) ADMIN ''admin'' = Inr (s', r)"
      and l: "currentLevel (bin r) = level"
      using example_createPickup by blast
    from createPickup_priority [OF c] l
    have "priority r = (if level \<ge> 95 then URGENT else if level \<ge> 85 then HIGH else MEDIUM)"
      by (simp add: exampleRequest_def)
    with c show ?thesis by blast
  qed
  from a [of 96] a [of 86] a [of 50] show ?thesis by simp
qed

text \<open>
  The creation in the example store at fill level 96, read at clock time 5000 and
  inserted by the database at time 5003.
\<close>

lemma example_urgent_createPickup:
  "createPickup (exactEnv 5003) 5000 (exampleStore 96 []) (exampleRequest None) ADMIN ''admin'' =
     Inr ((exampleStore 96 [])
            \<lparr> pickups :=
                 [\<lparr> pk_id = 10, binId = ''bin-1'', driverId = Some ''d1'', createdById = ''admin'',
                    scheduledAt = Some 1805000, startedAt = None, completedAt = None,
                    pk_notes = None, pk_status = SCHEDULED, createdAt = 5003 \<rparr>],
               nextId := 11 \<rparr>,
          formatPickupResponse
            \<lparr> pk_id = 10, binId = ''bin-1'', driverId = Some ''d1'', createdById = ''admin'',
              scheduledAt = Some 1805000, startedAt = None, completedAt = None,
              pk_notes = None, pk_status = SCHEDULED, createdAt = 5003 \<rparr>
            (exampleBin 96) URGENT ON_DEMAND)"
proof -
  have b: "latitude (exampleBin 96) = 0" "longitude (exampleBin 96) = 0"
    "currentLevel (exampleBin 96) = 96" "bin_id (exampleBin 96) = ''bin-1''"
    by (simp_all add: exampleBin_def)
  have t: "bins (exampleStore 96 []) = [exampleBin 96]" "pickups (exampleStore 96 []) = []"
    "nextId (exampleStore 96 []) = 10"
    by (simp_all add: exampleStore_def)
  show ?thesis
    by (simp add: createPickup_def t exampleRequest_def b truthy_def derivePriority_def
          example_findBestAvailableDriver exactEnv_fields Let_def)
qed

text \<open>
  C6, as stated, fails: the scheduled time is the clock reading of
  \<open>calculateScheduledTime\<close> plus the offset, and the creation time is the database's stamp
  at the insert. Read at 5000 and inserted at 5003, an \<open>URGENT\<close> pickup is scheduled at
  1805000, which is not its creation time plus 30 minutes.
\<close>

theorem scheduledAt_createdAt_counterexample:
  "map_sum id (priority \<circ> snd)
     (createPickup (exactEnv 5003) 5000 (exampleStore 96 []) (exampleRequest None) ADMIN ''admin'')
     = Inr URGENT \<and>
   map_sum id (createdAt \<circ> pickup \<circ> snd)
     (createPickup (exactEnv 5003) 5000 (exampleStore 96 []) (exampleRequest None) ADMIN ''admin'')
     = Inr 5003 \<and>
   map_sum id (scheduledAt \<circ> pickup \<circ> snd)
     (createPickup (exactEnv 5003) 5000 (exampleStore 96 []) (exampleRequest None) ADMIN ''admin'')
     = Inr (Some 1805000) \<and>
   (1805000 :: int) \<noteq> 5003 + 30 * 60 * 1000"
  by (simp add: example_urgent_createPickup formatPickupResponse_def)

text \<open>
  C6, amended. A pickup created without an explicit scheduled time is scheduled at the
  clock reading of \<open>calculateScheduledTime\<close> plus 30 minutes for \<open>URGENT\<close>, 2 hours for
  \<open>HIGH\<close>, 4 hours for \<open>MEDIUM\<close> and 24 hours for \<open>LOW\<close>, the priority being the derived
  one; its creation time is the database's stamp at the insert.
\<close>

theorem createPickup_scheduledAt:
  assumes "createPickup env now s data requestUserRole requestUserId = Inr (s', r)"
    and "rq_scheduledAt data = None"
  shows "pickups s' = pickups s @ [pickup r] \<and> createdAt (pickup r) = insertTime env \<and>
         scheduledAt (pickup r) =
           Some (now +
                 (case priority r of
                    URGENT \<Rightarrow> 30 * 60 * 1000
                  | HIGH \<Rightarrow> 2 * 60 * 60 * 1000
                  | MEDIUM \<Rightarrow> 4 * 60 * 60 * 1000
                  | LOW \<Rightarrow> 24 * 60 * 60 * 1000))"
  using assms by (elim createPickup_Inr) (cases "priority r"; simp)

theorem createPickup_scheduledAt_witness:
  "\<exists>s' r. createPickup (exactEnv 5003) 5000 (exampleStore 96 []) (exampleRequest None) ADMIN ''admin''
             = Inr (s', r)
     \<and> rq_scheduledAt (exampleRequest None) = None
     \<and> priority r = URGENT \<and> scheduledAt (pickup r) = Some (5000 + 1800000)
     \<and> createdAt (pickup r) = 5003"
proof -
  have n: "rq_scheduledAt (exampleRequest None) = None" by (simp add: exampleRequest_def)
  obtain s' r where c: "createPickup (exactEnv 5003) 5000 (exampleStore 96 []) (exampleRequest None)
      ADMIN ''admin'' = Inr (s', r)"
    and p: "priority r = URGENT"
    by (simp add: example_urgent_createPickup formatPickupResponse_def)
  from createPickup_scheduledAt [OF c n] p
  have "scheduledAt (pickup r) = Some (5000 + 1800000)" "createdAt (pickup r) = 5003"
    by (simp_all add: exactEnv_fields)
  with c n p show ?thesis by blast
qed

section \<open>Properties of the status operations\<close>

lemma find_updateFirst:
  "(\<And>x. P x \<Longrightarrow> P (f x)) \<Longrightarrow> find P (updateFirst P f xs) = map_option f (find P xs)"
  by (induction xs) auto

lemma getPickupById_Inr:
  assumes "getPickupById s pickupId role uid = Inr existing"
  shows "find (\<lambda>p. pk_id p = pickupId) (pickups s) = Some (pickup existing)"
    and "find (\<lambda>b. bin_id b = binId (pickup existing)) (bins s) = Some (bin existing)"
  using assms
  by (auto simp: getPickupById_def formatPickupResponse_def split: option.splits if_splits)

lemma find_pickupUpdate:
  "find (\<lambda>p. pk_id p = pickupId) (pickups s) = Some p \<Longrightarrow>
   find (\<lambda>p. pk_id p = pickupId) (pickups (pickupUpdate s' pickupId u)) =
     map_option (applyUpdateData u) (find (\<lambda>p. pk_id p = pickupId) (pickups s'))"
  by (simp add: pickupUpdate_def find_updateFirst applyUpdateData_def)

lemma pickups_binEmptied: "pickups (binEmptied s bid now) = pickups s"
  by (simp add: binEmptied_def)

lemma bins_pickupUpdate: "bins (pickupUpdate s pickupId u) = bins s"
  by (simp add: pickupUpdate_def)

text \<open>
  C9. A status update the requester may make, with both writes going through, succeeds,
  and the pickup then carries the requested status; its start time is stamped only by a
  transition to \<open>IN_PROGRESS\<close> while no start time is set, its completion time only by
  a transition to \<open>COMPLETED\<close> while no completion time is set. So repeating either
  transition leaves both timestamps as they were.
\<close>

theorem updatePickupStatus_timestamps:
  assumes "getPickupById s pickupId requestUserRole requestUserId = Inr existing"
    and "\<not> fails PickupUpdate" and "\<not> fails BinUpdate"
  shows "\<exists>s' p'.
           updatePickupStatus fails now s pickupId statusData requestUserRole requestUserId =
             (s', Inr ''Pickup status updated successfully'') \<and>
           find (\<lambda>p. pk_id p = pickupId) (pickups s') = Some p' \<and>
           pk_status p' = su_status statusData \<and>
           startedAt p' =
             (if su_status statusData = IN_PROGRESS \<and> startedAt (pickup existing) = None
              then Some now else startedAt (pickup existing)) \<and>
           completedAt p' =
             (if su_status statusData = COMPLETED \<and> completedAt (pickup existing) = None
              then Some now else completedAt (pickup existing))"
proof -
  note f = getPickupById_Inr(1) [OF assms(1)]
  show ?thesis
    using assms f
    by (auto simp: updatePickupStatus_def Let_def find_pickupUpdate pickups_binEmptied
          applyUpdateData_def)
qed

lemma example_getPickupById:
  "getPickupById (exampleStore level [examplePickup 1 st a b]) 1 ADMIN ''admin'' =
     Inr (formatPickupResponse (examplePickup 1 st a b) (exampleBin level) MEDIUM ON_DEMAND)"
  by (simp add: getPickupById_def exampleStore_def examplePickup_def exampleBin_def)

theorem updatePickupStatus_timestamps_witness:
  "\<exists>s' p'.
     updatePickupStatus noFault 2000 (exampleStore 90 [examplePickup 1 IN_PROGRESS (Some 500) None]) 1
       \<lparr> su_status = IN_PROGRESS, su_notes = None \<rparr> ADMIN ''admin'' =
       (s', Inr ''Pickup status updated successfully'') \<and>
     find (\<lambda>p. pk_id p = 1) (pickups s') = Some p' \<and>
     pk_status p' = IN_PROGRESS \<and> startedAt p' = Some 500 \<and> completedAt p' = None"
  using updatePickupStatus_timestamps [of _ _ _ _ _ noFault 2000
          "\<lparr> su_status = IN_PROGRESS, su_notes = None \<rparr>",
          OF example_getPickupById [of 90 IN_PROGRESS "Some 500" None]]
  by (simp add: noFault_def formatPickupResponse_def examplePickup_def)

text \<open>
  The status update checks no transition. It writes a status over a \<open>COMPLETED\<close> pickup
  that the cancel operation refuses to touch.
\<close>

lemma updatePickupStatus_over_completed:
  "updatePickupStatus noFault 2000 (exampleStore 0 [examplePickup 1 COMPLETED (Some 500) (Some 900)]) 1
     \<lparr> su_status = CANCELLED, su_notes = None \<rparr> ADMIN ''admin'' =
     (exampleStore 0 [examplePickup 1 CANCELLED (Some 500) (Some 900)],
      Inr ''Pickup status updated successfully'')"
  unfolding updatePickupStatus_def example_getPickupById
  by (simp add: formatPickupResponse_def
        noFault_def pickupUpdate_def applyUpdateData_def exampleStore_def examplePickup_def Let_def)

text \<open>
  C1, as stated, fails: cancelling a pickup that is already \<open>CANCELLED\<close> succeeds.
\<close>

theorem cancel_cancelled_counterexample:
  "cancelPickup noFault (exampleStore 0 [examplePickup 1 CANCELLED None None]) 1 ''again'' ADMIN ''admin'' =
     (exampleStore 0 [(examplePickup 1 CANCELLED None None)\<lparr> pk_notes := Some ''again'' \<rparr>],
      Inr ''Pickup cancelled successfully'')"
  unfolding cancelPickup_def example_getPickupById
  by (simp add: formatPickupResponse_def
        noFault_def pickupUpdate_def applyUpdateData_def exampleStore_def examplePickup_def Let_def)

text \<open>
  C1, amended. For every pickup the requester may access: cancelling it while it is
  \<open>COMPLETED\<close> fails with status code 400 and leaves the store as it was; cancelling it
  in any other status, \<open>CANCELLED\<close> included, succeeds and sets it to \<open>CANCELLED\<close> with
  the reason as its notes.
\<close>

theorem cancelPickup_guard:
  assumes "getPickupById s pickupId requestUserRole requestUserId = Inr existing"
    and "\<not> fails PickupUpdate"
  shows "(pk_status (pickup existing) = COMPLETED \<longrightarrow>
            cancelPickup fails s pickupId reason requestUserRole requestUserId =
              (s, Inl (AppError 400 ''Cannot cancel completed pickup''))) \<and>
         (pk_status (pickup existing) \<noteq> COMPLETED \<longrightarrow>
            (\<exists>s' p'.
               cancelPickup fails s pickupId reason requestUserRole requestUserId =
                 (s', Inr ''Pickup cancelled successfully'') \<and>
               find (\<lambda>p. pk_id p = pickupId) (pickups s') = Some p' \<and>
               pk_status p' = CANCELLED \<and> pk_notes p' = Some reason \<and>
               startedAt p' = startedAt (pickup existing) \<and>
               completedAt p' = completedAt (pickup existing) \<and>
               bins s' = bins s))"
proof -
  note f = getPickupById_Inr(1) [OF assms(1)]
  have b: "pk_status (pickup existing) = COMPLETED \<longrightarrow>
            cancelPickup fails s pickupId reason requestUserRole requestUserId =
              (s, Inl (AppError 400 ''Cannot cancel completed pickup''))"
    using assms by (simp add: cancelPickup_def)
  have c: "pk_status (pickup existing) \<noteq> COMPLETED \<longrightarrow>
            (\<exists>s' p'.
               cancelPickup fails s pickupId reason requestUserRole requestUserId =
                 (s', Inr ''Pickup cancelled successfully'') \<and>
               find (\<lambda>p. pk_id p = pickupId) (pickups s') = Some p' \<and>
               pk_status p' = CANCELLED \<and> pk_notes p' = Some reason \<and>
               startedAt p' = startedAt (pickup existing) \<and>
               completedAt p' = completedAt (pickup existing) \<and>
               bins s' = bins s)"
    using assms f
    by (simp add: cancelPickup_def find_pickupUpdate applyUpdateData_def bins_pickupUpdate)
  from b c show ?thesis by blast
qed

theorem cancelPickup_guard_witness:
  "cancelPickup noFault (exampleStore 0 [examplePickup 1 COMPLETED (Some 500) (Some 900)]) 1 ''late'' ADMIN ''admin'' =
     (exampleStore 0 [examplePickup 1 COMPLETED (Some 500) (Some 900)],
      Inl (AppError 400 ''Cannot cancel completed pickup'')) \<and>
   (\<exists>s' p'.
      cancelPickup noFault (exampleStore 0 [examplePickup 1 IN_PROGRESS (Some 500) None]) 1 ''moved'' ADMIN ''admin'' =
        (s', Inr ''Pickup cancelled successfully'') \<and>
      find (\<lambda>p. pk_id p = 1) (pickups s') = Some p' \<and>
      pk_status p' = CANCELLED \<and> pk_notes p' = Some ''moved'') \<and>
   (\<exists>s' p'.
      cancelPickup noFault (exampleStore 0 [examplePickup 1 CANCELLED None None]) 1 ''again'' ADMIN ''admin'' =
        (s', Inr ''Pickup cancelled successfully'') \<and>
      find (\<lambda>p. pk_id p = 1) (pickups s') = Some p' \<and>
      pk_status p' = CANCELLED \<and> pk_notes p' = Some ''again'')"
proof -
  have a: "\<not> noFault PickupUpdate"
    by (simp add: noFault_def)
  note g1 = cancelPickup_guard [of _ _ _ _ _ noFault "''late''",
          OF example_getPickupById [of 0 COMPLETED "Some 500" "Some 900"] a]
  note g2 = cancelPickup_guard [of _ _ _ _ _ noFault "''moved''",
          OF example_getPickupById [of 0 IN_PROGRESS "Some 500" None] a]
  note g3 = cancelPickup_guard [of _ _ _ _ _ noFault "''again''",
          OF example_getPickupById [of 0 CANCELLED None None] a]
  have c: "pk_status (pickup (formatPickupResponse (examplePickup 1 COMPLETED (Some 500) (Some 900))
              (exampleBin 0) MEDIUM ON_DEMAND)) = COMPLETED"
    and d: "pk_status (pickup (formatPickupResponse (examplePickup 1 IN_PROGRESS (Some 500) None)
              (exampleBin 0) MEDIUM ON_DEMAND)) \<noteq> COMPLETED"
    and e: "pk_status (pickup (formatPickupResponse (examplePickup 1 CANCELLED None None)
              (exampleBin 0) MEDIUM ON_DEMAND)) \<noteq> COMPLETED"
    by (simp_all add: formatPickupResponse_def examplePickup_def)
  from g1 c have 1: "cancelPickup noFault (exampleStore 0 [examplePickup 1 COMPLETED (Some 500) (Some 900)]) 1 ''late'' ADMIN ''admin'' =
     (exampleStore 0 [examplePickup 1 COMPLETED (Some 500) (Some 900)],
      Inl (AppError 400 ''Cannot cancel completed pickup''))" by simp
  from g2 d have 2: "\<exists>s' p'.
      cancelPickup noFault (exampleStore 0 [examplePickup 1 IN_PROGRESS (Some 500) None]) 1 ''moved'' ADMIN ''admin'' =
        (s', Inr ''Pickup cancelled successfully'') \<and>
      find (\<lambda>p. pk_id p = 1) (pickups s') = Some p' \<and>
      pk_status p' = CANCELLED \<and> pk_notes p' = Some ''moved''" by simp blast
  from g3 e have 3: "\<exists>s' p'.
      cancelPickup noFault (exampleStore 0 [examplePickup 1 CANCELLED None None]) 1 ''again'' ADMIN ''admin'' =
        (s', Inr ''Pickup cancelled successfully'') \<and>
      find (\<lambda>p. pk_id p = 1) (pickups s') = Some p' \<and>
      pk_status p' = CANCELLED \<and> pk_notes p' = Some ''again''" by simp blast
  from 1 2 3 show ?thesis by blast
qed

text \<open>
  C2. The first transition to \<open>COMPLETED\<close> writes the bin (level 0, \<open>EMPTY\<close>, last
  emptied now) and then the pickup (status, completion time), as two separate writes. In
  the run where the pickup write raises, the operation fails and the bin stays reset
  while the pickup is still in progress.
\<close>

theorem completion_partial_write:
  "updatePickupStatus noFault 2000
     (exampleStore 90 [examplePickup 1 IN_PROGRESS (Some 500) None]) 1
     \<lparr> su_status = COMPLETED, su_notes = None \<rparr> ADMIN ''admin'' =
     (\<lparr> bins = [(exampleBin 90)\<lparr> currentLevel := 0, bin_status := EMPTY, lastEmptied := Some 2000 \<rparr>],
        drivers = [exampleDriver ''d1'' 0, exampleDriver ''d2'' 180],
        pickups = [examplePickup 1 COMPLETED (Some 500) (Some 2000)],
        routes = [], routeStops = [], nextId = 10 \<rparr>,
      Inr ''Pickup status updated successfully'') \<and>
   updatePickupStatus pickupWriteFails 2000
     (exampleStore 90 [examplePickup 1 IN_PROGRESS (Some 500) None]) 1
     \<lparr> su_status = COMPLETED, su_notes = None \<rparr> ADMIN ''admin'' =
     (\<lparr> bins = [(exampleBin 90)\<lparr> currentLevel := 0, bin_status := EMPTY, lastEmptied := Some 2000 \<rparr>],
        drivers = [exampleDriver ''d1'' 0, exampleDriver ''d2'' 180],
        pickups = [examplePickup 1 IN_PROGRESS (Some 500) None],
        routes = [], routeStops = [], nextId = 10 \<rparr>,
      Inl DbError)"
  unfolding updatePickupStatus_def example_getPickupById
  by (simp add: formatPickupResponse_def noFault_def pickupUpdate_def applyUpdateData_def
        pickupWriteFails_def binEmptied_def exampleStore_def examplePickup_def exampleBin_def Let_def)

section \<open>Properties of the route fallback\<close>

text \<open>
  The inner loop returns an index inside the array, so the outer loop never reads outside
  \<open>remaining\<close>; it ends, and its result is a permutation of the stops it was given.
\<close>

lemma nearestLoop_bound:
  "nearestIndex < i \<Longrightarrow> nearestLoop env cur ps i nearestIndex shortest < i + length ps"
proof (induction ps arbitrary: i nearestIndex shortest)
  case Nil
  then show ?case by simp
next
  case (Cons p ps)
  have "nearestLoop env cur ps (Suc i) i (legDistance env cur p) < Suc i + length ps"
    by (rule Cons.IH) simp
  moreover have "nearestLoop env cur ps (Suc i) nearestIndex shortest < Suc i + length ps"
    by (rule Cons.IH) (use Cons.prems in simp)
  ultimately show ?case by (simp add: Let_def)
qed

lemma mset_remove_nth:
  "k < length xs \<Longrightarrow> mset xs = add_mset (xs ! k) (mset (take k xs @ drop (Suc k) xs))"
proof -
  assume "k < length xs"
  then have "xs = take k xs @ xs ! k # drop (Suc k) xs" by (rule id_take_nth_drop)
  then have "mset xs = mset (take k xs @ xs ! k # drop (Suc k) xs)" by simp
  then show ?thesis by simp
qed

lemma nearestNeighborLoop_correct:
  "\<exists>res. nearestNeighborLoop env optimized remaining cur = Inr (optimized @ res) \<and>
         mset res = mset remaining"
proof (induction env optimized remaining cur rule: nearestNeighborLoop.induct)
  case (1 env optimized cur)
  then show ?case by simp
next
  case (2 env optimized r rs cur)
  let ?k = "nearestLoop env cur rs 1 0 (legDistance env cur r)"
  let ?xs = "r # rs"
  have k: "?k < length ?xs"
    using nearestLoop_bound [of 0 1 env cur rs "legDistance env cur r"] by simp
  from "2.IH" [OF refl k] obtain res where
    r1: "nearestNeighborLoop env (optimized @ [?xs ! ?k]) (take ?k ?xs @ drop (Suc ?k) ?xs)
           (positionOf (?xs ! ?k)) = Inr ((optimized @ [?xs ! ?k]) @ res)"
    and r2: "mset res = mset (take ?k ?xs @ drop (Suc ?k) ?xs)" by blast
  have s: "mset (?xs ! ?k # res) = mset ?xs"
    using r2 mset_remove_nth [OF k] by simp
  have "nearestNeighborLoop env optimized ?xs cur = Inr (optimized @ (?xs ! ?k # res))"
    using k r1 by (simp add: Let_def)
  with s show ?case by blast
qed

lemma fallbackPlan_Inr:
  "\<exists>plan. fallbackPlan env startLocation ps = Inr plan \<and> mset (optimizedPickups plan) = mset ps"
proof -
  from nearestNeighborLoop_correct [of env "[]" ps startLocation]
  obtain res where "nearestNeighborOptimization env startLocation ps = Inr res" "mset res = mset ps"
    by (auto simp: nearestNeighborOptimization_def)
  then show ?thesis by (simp add: fallbackPlan_def Let_def)
qed

lemma polar_legDistance:
  "legDistance env polarPosition (examplePoint pid la lo) = calculateDistance env (- 82) (- 180) la lo"
  "positionOf (examplePoint pid la lo) = \<lparr> co_latitude = la, co_longitude = lo \<rparr>"
  by (simp_all add: legDistance_def polarPosition_def examplePoint_def positionOf_def)

text \<open>
  C4. The fallback does not order the stops by the nearest-neighbour rule, and its total
  is not a non-negative number, when a leg is \<open>NaN\<close>. From (-82, -180), with a first
  stop at the antipode (82, 0) and a second stop one degree of longitude away, and with
  the mapping collaborator failing: in every run whose arithmetic rounds the haversine
  term of the antipode above 1, the fallback visits the antipode first, whose distance is
  \<open>NaN\<close>, although the distance of the other stop is a number, and the total distance
  and the duration are \<open>NaN\<close>; with exact arithmetic it visits the other stop first, and
  the total is the sum of the two legs travelled.
\<close>

theorem fallback_antipodal:
  assumes "1 < haversineTerm env (- 82) (- 180) 82 0"
    and "0 \<le> haversineTerm env (- 82) (- 180) (- 82) (- 179)"
    and "haversineTerm env (- 82) (- 180) (- 82) (- 179) \<le> 1"
  shows "planRoute env routingDown polarPosition
           [examplePoint 1 82 0, examplePoint 2 (- 82) (- 179)] =
           Inr \<lparr> optimizedPickups = [examplePoint 1 82 0, examplePoint 2 (- 82) (- 179)],
                 plan_totalDistance = NaN, plan_estimatedDuration = NaN \<rparr> \<and>
         legDistance env polarPosition (examplePoint 1 82 0) = NaN \<and>
         (\<exists>d. legDistance env polarPosition (examplePoint 2 (- 82) (- 179)) = Finite d) \<and>
         (\<exists>plan. planRoute (exactEnv t) routingDown polarPosition
                    [examplePoint 1 82 0, examplePoint 2 (- 82) (- 179)] = Inr plan \<and>
                 optimizedPickups plan = [examplePoint 2 (- 82) (- 179), examplePoint 1 82 0] \<and>
                 plan_totalDistance plan =
                   jsPlus (calculateDistance (exactEnv t) (- 82) (- 180) (- 82) (- 179))
                          (calculateDistance (exactEnv t) (- 82) (- 179) 82 0))"
proof -
  have f: "legDistance env polarPosition (examplePoint 1 82 0) = NaN"
    using assms(1) by (simp add: polar_legDistance calculateDistance_NaN)
  have n: "legDistance env polarPosition (examplePoint 2 (- 82) (- 179)) =
             Finite (6371 * (2 * atan2 (sqrt (haversineTerm env (- 82) (- 180) (- 82) (- 179)))
                                       (sqrt (1 - haversineTerm env (- 82) (- 180) (- 82) (- 179)))))"
    using calculateDistance_Finite [OF assms(2,3)] by (simp add: polar_legDistance)
  have o: "nearestNeighborOptimization env polarPosition
             [examplePoint 1 82 0, examplePoint 2 (- 82) (- 179)] =
             Inr [examplePoint 1 82 0, examplePoint 2 (- 82) (- 179)]"
    using f n by (simp add: nearestNeighborOptimization_def polar_legDistance Let_def)
  have a: "planRoute env routingDown polarPosition
           [examplePoint 1 82 0, examplePoint 2 (- 82) (- 179)] =
           Inr \<lparr> optimizedPickups = [examplePoint 1 82 0, examplePoint 2 (- 82) (- 179)],
                 plan_totalDistance = NaN, plan_estimatedDuration = NaN \<rparr>"
    using f o by (simp add: planRoute_def routingDown_def fallbackPlan_def polar_legDistance Let_def)
  have e1: "legDistance (exactEnv t) polarPosition (examplePoint 1 82 0) = Finite (6371 * pi)"
  proof -
    have h: "haversineTerm (exactEnv t) (- 82) (- 180) 82 0 = 1"
      by (simp add: antipodal_term rounding_exactEnv)
    have "0 \<le> haversineTerm (exactEnv t) (- 82) (- 180) 82 0"
      "haversineTerm (exactEnv t) (- 82) (- 180) 82 0 \<le> 1"
      by (simp_all add: h)
    from calculateDistance_Finite [OF this] show ?thesis
      by (simp add: h atan2_def polar_legDistance)
  qed
  have t0: "0 \<le> haversineTerm (exactEnv t) (- 82) (- 180) (- 82) (- 179)"
    by (rule haversineTerm_exact) (rule rounding_exactEnv)
  have t1: "haversineTerm (exactEnv t) (- 82) (- 180) (- 82) (- 179) < 1"
    by (rule neighbour_term_exact) (rule rounding_exactEnv)
  from calculateDistance_below_half_turn [OF t0 t1] obtain d where
    e2': "calculateDistance (exactEnv t) (- 82) (- 180) (- 82) (- 179) = Finite d"
    and d: "d < 6371 * pi" by blast
  have e2: "legDistance (exactEnv t) polarPosition (examplePoint 2 (- 82) (- 179)) = Finite d"
    using e2' by (simp add: polar_legDistance)
  have o': "nearestNeighborOptimization (exactEnv t) polarPosition
             [examplePoint 1 82 0, examplePoint 2 (- 82) (- 179)] =
             Inr [examplePoint 2 (- 82) (- 179), examplePoint 1 82 0]"
    using d e1 e2 by (simp add: nearestNeighborOptimization_def polar_legDistance Let_def)
  have b: "\<exists>plan. planRoute (exactEnv t) routingDown polarPosition
                    [examplePoint 1 82 0, examplePoint 2 (- 82) (- 179)] = Inr plan \<and>
                 optimizedPickups plan = [examplePoint 2 (- 82) (- 179), examplePoint 1 82 0] \<and>
                 plan_totalDistance plan =
                   jsPlus (calculateDistance (exactEnv t) (- 82) (- 180) (- 82) (- 179))
                          (calculateDistance (exactEnv t) (- 82) (- 179) 82 0)"
    using o' e2' by (simp add: planRoute_def routingDown_def fallbackPlan_def Let_def
        legDistance_def polarPosition_def examplePoint_def positionOf_def)
  from a f n b show ?thesis by simp
qed

theorem fallback_antipodal_witness:
  "1 < haversineTerm antipodalEnv (- 82) (- 180) 82 0 \<and>
   planRoute antipodalEnv routingDown polarPosition
     [examplePoint 1 82 0, examplePoint 2 (- 82) (- 179)] =
     Inr \<lparr> optimizedPickups = [examplePoint 1 82 0, examplePoint 2 (- 82) (- 179)],
           plan_totalDistance = NaN, plan_estimatedDuration = NaN \<rparr>"
  using fallback_antipodal [OF antipodalEnv_terms(1,2,3)] antipodalEnv_terms(1)
  by simp

section \<open>Properties of route optimization\<close>

text \<open>The route computation always yields a plan.\<close>

lemma planRoute_Inr: "\<exists>plan. planRoute env getRoute startLocation ps = Inr plan"
proof -
  from fallbackPlan_Inr [of env startLocation ps]
  obtain plan where "fallbackPlan env startLocation ps = Inr plan" by blast
  then show ?thesis
    by (auto simp: planRoute_def Let_def split: sum.splits list.splits)
qed

lemma pickups_assignPickups:
  "pickups (assignPickups s ids did) =
     map (\<lambda>p. if pk_id p \<in> set ids then p\<lparr> driverId := Some did \<rparr> else p) (pickups s)"
  by (simp add: assignPickups_def)

text \<open>
  C10. After a successful route optimization every pickup whose key is in the requested
  list has the given driver as its driver, whether or not it was scheduled and became a
  stop, and the pickup table differs from the one before in nothing but these driver
  references. The witness routes a scheduled and a completed pickup: one stop, both
  reassigned.
\<close>

theorem optimizePickupRoute_assignment:
  assumes "optimizePickupRoute env getRoute now s data = Inr (s', r)"
  shows "pickups s' =
           map (\<lambda>p. if pk_id p \<in> set (ro_pickupIds data)
                     then p\<lparr> driverId := Some (ro_driverId data) \<rparr> else p) (pickups s) \<and>
         (\<forall>p\<in>set (pickups s'). pk_id p \<in> set (ro_pickupIds data) \<longrightarrow>
            driverId p = Some (ro_driverId data)) \<and>
         bins s' = bins s \<and> drivers s' = drivers s"
proof -
  from assms have a: "pickups s' =
           map (\<lambda>p. if pk_id p \<in> set (ro_pickupIds data)
                     then p\<lparr> driverId := Some (ro_driverId data) \<rparr> else p) (pickups s)"
    and b: "bins s' = bins s" and c: "drivers s' = drivers s"
    by (auto simp: optimizePickupRoute_def Let_def assignPickups_def
          split: option.splits sum.splits if_splits)
  have "\<forall>p\<in>set (pickups s'). pk_id p \<in> set (ro_pickupIds data) \<longrightarrow>
            driverId p = Some (ro_driverId data)"
    unfolding a by auto
  with a b c show ?thesis by blast
qed

lemma example_optimizePickupRoute:
  "\<exists>s' r. optimizePickupRoute (exactEnv 0) routingDown 0
      (exampleStore 90 [examplePickup 1 SCHEDULED None None, examplePickup 2 COMPLETED (Some 5) (Some 9)])
      exampleOptimization = Inr (s', r) \<and> length (or_pickups r) = 1"
proof -
  obtain plan where p: "planRoute (exactEnv 0) routingDown \<lparr>co_latitude = 0, co_longitude = 180\<rparr>
      [routePickup (examplePickup 1 SCHEDULED None None, exampleBin 90)] = Inr plan"
    using planRoute_Inr by blast
  then have "optimizedPickups plan = [routePickup (examplePickup 1 SCHEDULED None None, exampleBin 90)]"
    by (auto simp: planRoute_def Let_def)
  with p show ?thesis
    by (simp add: optimizePickupRoute_def exampleOptimization_def exampleStore_def
          exampleDriver_def scheduledPickups_def withBins_def examplePickup_def exampleBin_def Let_def)
qed

theorem optimizePickupRoute_assignment_witness:
  "\<exists>s' r. optimizePickupRoute (exactEnv 0) routingDown 0
      (exampleStore 90 [examplePickup 1 SCHEDULED None None, examplePickup 2 COMPLETED (Some 5) (Some 9)])
      exampleOptimization = Inr (s', r) \<and>
     length (or_pickups r) = 1 \<and>
     pickups s' = [(examplePickup 1 SCHEDULED None None)\<lparr> driverId := Some ''d2'' \<rparr>,
                   (examplePickup 2 COMPLETED (Some 5) (Some 9))\<lparr> driverId := Some ''d2'' \<rparr>]"
proof -
  from example_optimizePickupRoute obtain s' r where
    o: "optimizePickupRoute (exactEnv 0) routingDown 0
      (exampleStore 90 [examplePickup 1 SCHEDULED None None, examplePickup 2 COMPLETED (Some 5) (Some 9)])
      exampleOptimization = Inr (s', r)" and l: "length (or_pickups r) = 1" by blast
  from optimizePickupRoute_assignment [OF o]
  have "pickups s' = [(examplePickup 1 SCHEDULED None None)\<lparr> driverId := Some ''d2'' \<rparr>,
                   (examplePickup 2 COMPLETED (Some 5) (Some 9))\<lparr> driverId := Some ''d2'' \<rparr>]"
    by (simp add: exampleOptimization_def exampleStore_def examplePickup_def)
  with o l show ?thesis by blast
qed

section \<open>Properties of the automatic pass\<close>














lemma exampleStore_tables:
  "bins (exampleStore level ps) = [exampleBin level]"
  "pickups (exampleStore level ps) = ps"
  "nextId (exampleStore level ps) = 10"
  by (simp_all add: exampleStore_def)


text \<open>A pickup in progress for the bin keeps it out of the pass, as a scheduled one does.\<close>

lemma example_pending_fullBins:
  "fullBins (exampleStore 82 [examplePickup 1 IN_PROGRESS (Some 5) None]) = []"
  "fullBins (exampleStore 82 [examplePickup 1 SCHEDULED None None]) = []"
  "fullBins (exampleStore 82 [examplePickup 1 COMPLETED (Some 5) (Some 9)]) = [exampleBin 82]"
  by (simp_all add: fullBins_def exampleStore_tables hasPendingPickup_def exampleBin_def
        examplePickup_def)





section \<open>A distance in closed form\<close>

text \<open>
  Bounds on \<open>arctan\<close> near 0 and, through Machin's formula, on \<open>pi\<close>; along a
  meridian, without rounding, the distance is the radius of the earth times the angle.
\<close>

lemma arctan_le_self:
  fixes x :: real
  assumes "0 \<le> x"
  shows "arctan x \<le> x"
proof -
  have "(\<lambda>t. t - arctan t) 0 \<le> (\<lambda>t. t - arctan t) x"
  proof (rule DERIV_nonneg_imp_nondecreasing [OF assms])
    fix t :: real
    have "((\<lambda>t. t - arctan t) has_real_derivative (1 - inverse (1 + t\<^sup>2))) (at t)"
      by (auto intro!: derivative_eq_intros)
    moreover have "0 \<le> 1 - inverse (1 + t\<^sup>2)"
    proof -
      have "1 \<le> 1 + t\<^sup>2" by simp
      then have "inverse (1 + t\<^sup>2) \<le> 1" by (rule inverse_le_1_iff [THEN iffD2, OF disjI2])
      then show ?thesis by simp
    qed
    ultimately show "\<exists>y. ((\<lambda>t. t - arctan t) has_real_derivative y) (at t) \<and> 0 \<le> y"
      by blast
  qed
  then show ?thesis by simp
qed

lemma arctan_ge_cubic:
  fixes x :: real
  assumes "0 \<le> x"
  shows "x - x ^ 3 / 3 \<le> arctan x"
proof -
  let ?f = "\<lambda>t::real. arctan t - t + t ^ 3 / 3"
  have "?f 0 \<le> ?f x"
  proof (rule DERIV_nonneg_imp_nondecreasing [OF assms])
    fix t :: real
    have "(?f has_real_derivative (inverse (1 + t\<^sup>2) - 1 + t\<^sup>2)) (at t)"
      by (auto intro!: derivative_eq_intros)
    moreover have "inverse (1 + t\<^sup>2) - 1 + t\<^sup>2 = t ^ 4 / (1 + t\<^sup>2)"
    proof -
      have "1 + t\<^sup>2 \<noteq> 0" by (metis add_nonneg_eq_0_iff zero_le_one zero_le_power2 zero_neq_one)
      then show ?thesis by (simp add: field_simps power2_eq_square power4_eq_xxxx)
    qed
    moreover have "0 \<le> t ^ 4 / (1 + t\<^sup>2)"
    proof -
      have "t ^ 4 = (t\<^sup>2)\<^sup>2" by simp
      then have "0 \<le> t ^ 4" by (metis zero_le_power2)
      then show ?thesis by (intro divide_nonneg_nonneg) simp_all
    qed
    ultimately show "\<exists>y. (?f has_real_derivative y) (at t) \<and> 0 \<le> y"
      by auto
  qed
  then show ?thesis by simp
qed

lemma arctan_le_quintic:
  fixes x :: real
  assumes "0 \<le> x"
  shows "arctan x \<le> x - x ^ 3 / 3 + x ^ 5 / 5"
proof -
  let ?f = "\<lambda>t::real. t - t ^ 3 / 3 + t ^ 5 / 5 - arctan t"
  have "?f 0 \<le> ?f x"
  proof (rule DERIV_nonneg_imp_nondecreasing [OF assms])
    fix t :: real
    have "(?f has_real_derivative (1 - t\<^sup>2 + t ^ 4 - inverse (1 + t\<^sup>2))) (at t)"
      by (auto intro!: derivative_eq_intros)
    moreover have "1 - t\<^sup>2 + t ^ 4 - inverse (1 + t\<^sup>2) = t ^ 6 / (1 + t\<^sup>2)"
    proof -
      have "1 + t\<^sup>2 \<noteq> 0" by (metis add_nonneg_eq_0_iff zero_le_one zero_le_power2 zero_neq_one)
      then show ?thesis by (simp add: field_simps power2_eq_square power_def eval_nat_numeral)
    qed
    moreover have "0 \<le> t ^ 6 / (1 + t\<^sup>2)"
    proof -
      have "t ^ 6 = (t ^ 3)\<^sup>2" by simp
      then have "0 \<le> t ^ 6" by (metis zero_le_power2)
      then show ?thesis by (intro divide_nonneg_nonneg) simp_all
    qed
    ultimately show "\<exists>y. (?f has_real_derivative y) (at t) \<and> 0 \<le> y"
      by auto
  qed
  then show ?thesis by simp
qed

lemma pi_bounds: "31405 / 10000 < pi" "pi < 31417 / 10000"
proof -
  have m: "pi = 16 * arctan (1 / 5) - 4 * arctan (1 / 239)"
    using machin by simp
  have "(1 / 5 :: real) - (1 / 5) ^ 3 / 3 \<le> arctan (1 / 5)"
    by (rule arctan_ge_cubic) simp
  then have l5: "1973333 / 10000000 \<le> arctan (1 / 5)"
    by (simp add: power3_eq_cube)
  have "arctan (1 / 5) \<le> (1 / 5 :: real) - (1 / 5) ^ 3 / 3 + (1 / 5) ^ 5 / 5"
    by (rule arctan_le_quintic) simp
  then have u5: "arctan (1 / 5) \<le> 1973974 / 10000000"
    by (simp add: eval_nat_numeral)
  have "(1 / 239 :: real) - (1 / 239) ^ 3 / 3 \<le> arctan (1 / 239)"
    by (rule arctan_ge_cubic) simp
  then have l239: "4184 / 1000000 \<le> arctan (1 / 239)"
    by (simp add: power3_eq_cube)
  have "arctan (1 / 239) \<le> (1 / 239 :: real)"
    by (rule arctan_le_self) simp
  then have u239: "arctan (1 / 239) \<le> 41842 / 10000000"
    by simp
  show "31405 / 10000 < pi" using m l5 u239 by linarith
  show "pi < 31417 / 10000" using m u5 l239 by linarith
qed

lemma calculateDistance_meridian:
  assumes "rounding env la lo la' lo = 0" and "0 < la' - la" and "la' - la < 180"
  shows "calculateDistance env la lo la' lo = Finite (6371 * ((la' - la) * pi / 180))"
proof -
  let ?x = "(la' - la) * pi / 360"
  have x0: "0 < ?x" using assms(2) by simp
  have x1: "?x < pi / 2" using assms(3) by simp
  have s: "0 < sin ?x" using x0 x1 by (rule sin_gt_zero2)
  have c: "0 < cos ?x" using x0 x1 by (rule cos_gt_zero)
  have d: "deg2rad (la' - la) / 2 = ?x" "deg2rad (lo - lo) / 2 = 0" by (simp_all add: deg2rad_def)
  have h: "haversineTerm env la lo la' lo = sin ?x * sin ?x"
    unfolding haversineTerm_def Let_def d assms(1) by simp
  have a: "sqrt (sin ?x * sin ?x) = sin ?x" using s by simp
  have e: "1 - sin ?x * sin ?x = cos ?x * cos ?x"
    using sin_cos_squared_add3 [of ?x] by linarith
  then have b: "sqrt (1 - sin ?x * sin ?x) = cos ?x" using c by simp
  have "atan2 (sin ?x) (cos ?x) = arctan (tan ?x)"
    using c by (simp add: atan2_def tan_def)
  also have "\<dots> = ?x"
    using x0 x1 by (intro arctan_tan) linarith+
  finally have t: "atan2 (sin ?x) (cos ?x) = ?x" .
  have h0: "0 \<le> haversineTerm env la lo la' lo" unfolding h by simp
  have "sin ?x * sin ?x \<le> 1" using e by (metis diff_ge_0_iff_ge zero_le_square)
  then have h1: "haversineTerm env la lo la' lo \<le> 1" unfolding h .
  have "calculateDistance env la lo la' lo =
          Finite (6371 * (2 * atan2 (sqrt (sin ?x * sin ?x)) (sqrt (1 - sin ?x * sin ?x))))"
    using calculateDistance_Finite [OF h0 h1] unfolding h .
  also have "\<dots> = Finite (6371 * (2 * ?x))" unfolding a b t ..
  finally show ?thesis by simp
qed

section \<open>Properties of the within-radius query\<close>

lemma jsLessEq_Finite: "jsLessEq x (Finite r) \<longleftrightarrow> (\<exists>v. x = Finite v \<and> v \<le> r)"
  by (cases x) simp_all

lemma jsMap_Finite: "jsMap f y = Finite v \<longleftrightarrow> (\<exists>d. y = Finite d \<and> v = f d)"
  by (cases y) auto

lemma example_distance:
  "driverDistance (exactEnv t) 8 (- 13) (driverAt ''d3'' (808997 / 100000) (- 13)) =
     Finite (6371 * (8997 / 100000 * pi / 180))"
proof -
  have "calculateDistance (exactEnv t) 8 (- 13) (808997 / 100000) (- 13) =
          Finite (6371 * ((808997 / 100000 - 8) * pi / 180))"
    by (rule calculateDistance_meridian) (simp_all add: rounding_exactEnv)
  then show ?thesis by (simp add: driverDistance_def driverAt_def Number_def)
qed

lemma example_distance_beyond: "10 < 6371 * (8997 / 100000 * pi / 180)"
  using pi_bounds(1) by simp

lemma example_distance_rounded: "js_round (6371 * (8997 / 100000 * pi / 180) * 100) = 1000"
  unfolding js_round_def
proof (rule floor_unique)
  show "of_int 1000 \<le> 6371 * (8997 / 100000 * pi / 180) * 100 + 1 / 2"
    using pi_bounds(1) by simp
  show "6371 * (8997 / 100000 * pi / 180) * 100 + 1 / 2 < of_int 1000 + 1"
    using pi_bounds(2) by simp
qed

lemma js_round_le:
  assumes "real_of_int (js_round (x * 100)) / 100 \<le> r"
  shows "x < r + 5 / 1000"
proof -
  have "x * 100 + 1 / 2 < real_of_int \<lfloor>x * 100 + 1 / 2\<rfloor> + 1" by linarith
  moreover have "real_of_int \<lfloor>x * 100 + 1 / 2\<rfloor> \<le> r * 100"
    using assms by (simp add: js_round_def field_simps)
  ultimately show ?thesis by linarith
qed

text \<open>
  C7, amended. Every driver in the result of a within-radius query is a driver of the
  store that is available, of an active account, of the requested status (\<open>ONLINE\<close> when
  none is requested) and of known location inside the bounding box of the query: its
  latitude is within radius / 111 degrees of the query latitude and, where the cosine of
  the query latitude is not 0, its longitude is within radius / (111 cos latitude) degrees
  of the query longitude. The distance reported for it is a number, the computed
  great-circle distance rounded to two decimals, and is at most the radius in force (the
  requested one, or 10 when none or 0 is given), so that the computed distance itself is
  below that radius plus 0.005 km. The result is sorted by ascending reported distance and
  has at most as many entries as the limit in force (the requested one, or 20).
\<close>

theorem getNearbyDrivers_result:
  "(\<forall>dd\<in>set (getNearbyDrivers env s query).
      fst dd \<in> set (drivers s) \<and>
      isAvailable (fst dd) \<and> userIsActive (fst dd) \<and>
      drv_status (fst dd) = (case q_status query of Some st \<Rightarrow> st | None \<Rightarrow> ONLINE) \<and>
      (\<exists>la lo. currentLatitude (fst dd) = Some la \<and> currentLongitude (fst dd) = Some lo \<and>
         q_latitude query - effectiveRadius query / 111 \<le> la \<and>
         la \<le> q_latitude query + effectiveRadius query / 111 \<and>
         (111 * cos (q_latitude query * pi / 180) \<noteq> 0 \<longrightarrow>
            q_longitude query - effectiveRadius query / (111 * cos (q_latitude query * pi / 180)) \<le> lo \<and>
            lo \<le> q_longitude query + effectiveRadius query / (111 * cos (q_latitude query * pi / 180)))) \<and>
      snd dd = reportedDistance env query (fst dd) \<and>
      (\<exists>v d. snd dd = Finite v \<and> v \<le> effectiveRadius query \<and>
         driverDistance env (q_latitude query) (q_longitude query) (fst dd) = Finite d \<and>
         v = real_of_int (js_round (d * 100)) / 100 \<and>
         d < effectiveRadius query + 5 / 1000)) \<and>
   sorted (map (\<lambda>dd. finiteValue (snd dd)) (getNearbyDrivers env s query)) \<and>
   length (getNearbyDrivers env s query) \<le> effectiveLimit query"
proof -
  let ?found = "take (effectiveLimit query) (filter (nearbyWhere query) (drivers s))"
  let ?located = "filter (\<lambda>d. currentLatitude d \<noteq> None \<and> currentLongitude d \<noteq> None) ?found"
  let ?within = "filter (\<lambda>dd. jsLessEq (snd dd) (Finite (effectiveRadius query)))
                   (map (\<lambda>d. (d, reportedDistance env query d)) ?located)"
  let ?c = "111 * cos (q_latitude query * pi / 180)"
  have g: "getNearbyDrivers env s query = sort_key (\<lambda>dd. finiteValue (snd dd)) ?within"
    by (simp add: getNearbyDrivers_def Let_def)
  have a: "fst dd \<in> set (drivers s) \<and>
      isAvailable (fst dd) \<and> userIsActive (fst dd) \<and>
      drv_status (fst dd) = (case q_status query of Some st \<Rightarrow> st | None \<Rightarrow> ONLINE) \<and>
      (\<exists>la lo. currentLatitude (fst dd) = Some la \<and> currentLongitude (fst dd) = Some lo \<and>
         q_latitude query - effectiveRadius query / 111 \<le> la \<and>
         la \<le> q_latitude query + effectiveRadius query / 111 \<and>
         (?c \<noteq> 0 \<longrightarrow>
            q_longitude query - effectiveRadius query / ?c \<le> lo \<and>
            lo \<le> q_longitude query + effectiveRadius query / ?c)) \<and>
      snd dd = reportedDistance env query (fst dd) \<and>
      (\<exists>v d. snd dd = Finite v \<and> v \<le> effectiveRadius query \<and>
         driverDistance env (q_latitude query) (q_longitude query) (fst dd) = Finite d \<and>
         v = real_of_int (js_round (d * 100)) / 100 \<and>
         d < effectiveRadius query + 5 / 1000)"
    if "dd \<in> set (getNearbyDrivers env s query)" for dd
  proof -
    from that have w: "dd \<in> set ?within" unfolding g by simp
    then have r: "jsLessEq (snd dd) (Finite (effectiveRadius query))"
      and e: "snd dd = reportedDistance env query (fst dd)"
      and l: "fst dd \<in> set ?located" by auto
    from l have f: "fst dd \<in> set ?found" by simp
    from f have "fst dd \<in> set (filter (nearbyWhere query) (drivers s))"
      by (rule in_set_takeD)
    then have m: "fst dd \<in> set (drivers s)" and n: "nearbyWhere query (fst dd)" by auto
    from n have o: "isAvailable (fst dd) \<and> userIsActive (fst dd) \<and>
      drv_status (fst dd) = (case q_status query of Some st \<Rightarrow> st | None \<Rightarrow> ONLINE)"
      by (simp add: nearbyWhere_def)
    from n obtain la lo where k: "currentLatitude (fst dd) = Some la"
      "currentLongitude (fst dd) = Some lo" "inLatitudeBox query la" "inLongitudeBox query lo"
      by (auto simp: nearbyWhere_def split: option.splits)
    from k(3) have b1: "q_latitude query - effectiveRadius query / 111 \<le> la"
      "la \<le> q_latitude query + effectiveRadius query / 111"
      by (simp_all add: inLatitudeBox_def Let_def)
    from k(4) have b2: "?c \<noteq> 0 \<longrightarrow>
            q_longitude query - effectiveRadius query / ?c \<le> lo \<and>
            lo \<le> q_longitude query + effectiveRadius query / ?c"
      by (simp add: inLongitudeBox_def Let_def)
    from r obtain v where v: "snd dd = Finite v" "v \<le> effectiveRadius query"
      unfolding jsLessEq_Finite by blast
    from v(1) e obtain d where
      d: "driverDistance env (q_latitude query) (q_longitude query) (fst dd) = Finite d"
        "v = real_of_int (js_round (d * 100)) / 100"
      unfolding reportedDistance_def by (auto simp: jsMap_Finite dest: sym)
    from v(2) d(2) have "d < effectiveRadius query + 5 / 1000"
      by (intro js_round_le) simp
    with v d have q: "\<exists>v d. snd dd = Finite v \<and> v \<le> effectiveRadius query \<and>
         driverDistance env (q_latitude query) (q_longitude query) (fst dd) = Finite d \<and>
         v = real_of_int (js_round (d * 100)) / 100 \<and>
         d < effectiveRadius query + 5 / 1000" by blast
    from k(1,2) b1 b2 have p: "\<exists>la lo. currentLatitude (fst dd) = Some la \<and> currentLongitude (fst dd) = Some lo \<and>
         q_latitude query - effectiveRadius query / 111 \<le> la \<and>
         la \<le> q_latitude query + effectiveRadius query / 111 \<and>
         (?c \<noteq> 0 \<longrightarrow>
            q_longitude query - effectiveRadius query / ?c \<le> lo \<and>
            lo \<le> q_longitude query + effectiveRadius query / ?c)" by blast
    from m o p e q show ?thesis by (intro conjI) simp_all
  qed
  have b: "sorted (map (\<lambda>dd. finiteValue (snd dd)) (getNearbyDrivers env s query))"
    unfolding g by (rule sorted_sort_key)
  have "length ?within \<le> length (map (\<lambda>d. (d, reportedDistance env query d)) ?located)"
    by (rule length_filter_le)
  moreover have "length ?located \<le> length ?found" by (rule length_filter_le)
  moreover have "length ?found \<le> effectiveLimit query" by simp
  ultimately have "length ?within \<le> effectiveLimit query" by simp
  then have c: "length (getNearbyDrivers env s query) \<le> effectiveLimit query"
    unfolding g by simp
  show ?thesis
  proof (intro conjI ballI)
    fix dd
    assume "dd \<in> set (getNearbyDrivers env s query)"
    from a [OF this] show "fst dd \<in> set (drivers s)" "isAvailable (fst dd)" "userIsActive (fst dd)"
      "drv_status (fst dd) = (case q_status query of Some st \<Rightarrow> st | None \<Rightarrow> ONLINE)"
      "\<exists>la lo. currentLatitude (fst dd) = Some la \<and> currentLongitude (fst dd) = Some lo \<and>
         q_latitude query - effectiveRadius query / 111 \<le> la \<and>
         la \<le> q_latitude query + effectiveRadius query / 111 \<and>
         (?c \<noteq> 0 \<longrightarrow>
            q_longitude query - effectiveRadius query / ?c \<le> lo \<and>
            lo \<le> q_longitude query + effectiveRadius query / ?c)"
      "snd dd = reportedDistance env query (fst dd)"
      "\<exists>v d. snd dd = Finite v \<and> v \<le> effectiveRadius query \<and>
         driverDistance env (q_latitude query) (q_longitude query) (fst dd) = Finite d \<and>
         v = real_of_int (js_round (d * 100)) / 100 \<and>
         d < effectiveRadius query + 5 / 1000"
      by blast+
  next
    show "sorted (map (\<lambda>dd. finiteValue (snd dd)) (getNearbyDrivers env s query))" by (rule b)
  next
    show "length (getNearbyDrivers env s query) \<le> effectiveLimit query" by (rule c)
  qed
qed

lemma example_nearbyWhere: "nearbyWhere nearbyQuery (driverAt ''d3'' (808997 / 100000) (- 13))"
proof -
  have "0 < cos (8 * pi / 180)"
    by (rule cos_gt_zero) (use pi_gt_zero in simp_all)
  then have c: "0 < 111 * cos (8 * pi / 180)" by simp
  then have "0 \<le> 10 / (111 * cos (8 * pi / 180))" by simp
  with c show ?thesis
    by (simp add: nearbyWhere_def nearbyQuery_def effectiveRadius_def driverAt_def
          inLatitudeBox_def inLongitudeBox_def Let_def)
qed

lemma example_getNearbyDrivers:
  "getNearbyDrivers (exactEnv t) nearbyStore nearbyQuery =
     [(driverAt ''d3'' (808997 / 100000) (- 13), Finite 10)]"
proof -
  have q: "q_latitude nearbyQuery = 8" "q_longitude nearbyQuery = - 13"
    by (simp_all add: nearbyQuery_def)
  have r: "reportedDistance (exactEnv t) nearbyQuery (driverAt ''d3'' (808997 / 100000) (- 13)) =
             Finite 10"
    unfolding reportedDistance_def q example_distance jsMap.simps example_distance_rounded by simp
  have l: "currentLatitude (driverAt ''d3'' (808997 / 100000) (- 13)) \<noteq> None"
    "currentLongitude (driverAt ''d3'' (808997 / 100000) (- 13)) \<noteq> None"
    by (simp_all add: driverAt_def)
  have e: "effectiveRadius nearbyQuery = 10" "effectiveLimit nearbyQuery = 5"
    by (simp_all add: effectiveRadius_def effectiveLimit_def nearbyQuery_def)
  show ?thesis
    by (simp add: getNearbyDrivers_def nearbyStore_def example_nearbyWhere r l e Let_def)
qed

text \<open>
  C7, as stated, fails: with radius 10 around (8, -13) the driver at (8.08997, -13) is
  returned with reported distance 10, and its great-circle distance exceeds 10 km.
\<close>

theorem nearby_radius_counterexample:
  "getNearbyDrivers (exactEnv 0) nearbyStore nearbyQuery =
     [(driverAt ''d3'' (808997 / 100000) (- 13), Finite 10)] \<and>
   q_radius nearbyQuery = Some 10 \<and>
   driverDistance (exactEnv 0) (q_latitude nearbyQuery) (q_longitude nearbyQuery)
     (driverAt ''d3'' (808997 / 100000) (- 13)) = Finite (6371 * (8997 / 100000 * pi / 180)) \<and>
   10 < 6371 * (8997 / 100000 * pi / 180)"
  using example_getNearbyDrivers [of 0] example_distance [of 0] example_distance_beyond
  by (simp add: nearbyQuery_def)

theorem getNearbyDrivers_result_witness:
  "set (getNearbyDrivers (exactEnv 0) nearbyStore nearbyQuery) =
     {(driverAt ''d3'' (808997 / 100000) (- 13), Finite 10)} \<and>
   8 - 10 / 111 \<le> (808997 / 100000 :: real) \<and> (808997 / 100000 :: real) \<le> 8 + 10 / 111 \<and>
   (\<exists>d. driverDistance (exactEnv 0) 8 (- 13) (driverAt ''d3'' (808997 / 100000) (- 13)) = Finite d \<and>
        d < 10 + 5 / 1000) \<and>
   length (getNearbyDrivers (exactEnv 0) nearbyStore nearbyQuery) \<le> 5"
proof -
  have e: "effectiveRadius nearbyQuery = 10" "effectiveLimit nearbyQuery = 5"
    "q_latitude nearbyQuery = 8" "q_longitude nearbyQuery = - 13"
    by (simp_all add: effectiveRadius_def effectiveLimit_def nearbyQuery_def)
  have l: "currentLatitude (driverAt ''d3'' (808997 / 100000) (- 13)) = Some (808997 / 100000)"
    by (simp add: driverAt_def)
  from getNearbyDrivers_result [of "exactEnv 0" nearbyStore nearbyQuery] show ?thesis
    unfolding example_getNearbyDrivers e by (auto simp: l)
qed

end
